theory Spec2Isabelle
  imports Main "HOL-Library.Word"
begin

section \<open>Wire format\<close>

text \<open>
  The four programs (\<^verbatim>\<open>A/server.py\<close>, \<^verbatim>\<open>A/client.py\<close>, \<^verbatim>\<open>B/server.py\<close>,
  \<^verbatim>\<open>B/client.py\<close>) exchange datagrams whose first 20 bytes are a header written with
  \<^verbatim>\<open>struct.pack("!HBBIIQ", ...)\<close>: unsigned fields of 2, 1, 1, 4, 4 and 8 bytes in network
  (big-endian) order. Python integers are unbounded, so every field value is an \<open>int\<close>;
  a datagram is a list of bytes. Names of the model carry the suffix of their file:
  \<open>_A\<close> for \<^verbatim>\<open>A/server.py\<close>, \<open>_B\<close> for \<^verbatim>\<open>B/server.py\<close>, \<open>_cA\<close> for \<^verbatim>\<open>A/client.py\<close>
  and \<open>_cB\<close> for \<^verbatim>\<open>B/client.py\<close>.
\<close>

type_synonym byte = "8 word"
type_synonym bytes = "byte list"

text \<open>The exceptions the modelled code can raise.\<close>

datatype error = StructError | UnicodeDecodeError | AttributeError | KeyError | TypeError

definition HELLO :: int where "HELLO = 1"
definition DATA :: int where "DATA = 2"
definition ALIVE :: int where "ALIVE = 3"
definition GOODBYE :: int where "GOODBYE = 4"

text \<open>One unsigned field of \<open>n\<close> bytes, most significant byte first, and its reading.\<close>

fun to_bytes_be :: "nat \<Rightarrow> int \<Rightarrow> bytes" where
  "to_bytes_be 0 v = []"
| "to_bytes_be (Suc n) v = to_bytes_be n (v div 256) @ [word_of_int (v mod 256)]"

definition from_bytes_be :: "bytes \<Rightarrow> int" where
  "from_bytes_be bs = foldl (\<lambda>a b. a * 256 + uint b) 0 bs"

text \<open>
  \<^verbatim>\<open>struct.pack\<close> raises \<^verbatim>\<open>struct.error\<close> for a value outside the range of its field:
  \<open>in_range bits v\<close> says that \<open>v\<close> is an unsigned number of that many bits.
\<close>

definition in_range :: "nat \<Rightarrow> int \<Rightarrow> bool" where
  "in_range bits v = (0 \<le> v \<and> v < 2 ^ bits)"

text \<open>
  \<^verbatim>\<open>struct.pack("!HBBIIQ", magic, version, command, sequence_number, session_id, clock)\<close>;
  \<open>header_bytes\<close> is the 20 bytes it returns when it returns.
\<close>

definition header_bytes :: "int \<Rightarrow> int \<Rightarrow> int \<Rightarrow> int \<Rightarrow> int \<Rightarrow> int \<Rightarrow> bytes" where
  "header_bytes magic version command sequence_number session_id logical_clock =
     to_bytes_be 2 magic @ to_bytes_be 1 version @ to_bytes_be 1 command @
     to_bytes_be 4 sequence_number @ to_bytes_be 4 session_id @ to_bytes_be 8 logical_clock"

definition struct_pack :: "int \<Rightarrow> int \<Rightarrow> int \<Rightarrow> int \<Rightarrow> int \<Rightarrow> int \<Rightarrow> error + bytes" where
  "struct_pack magic version command sequence_number session_id logical_clock =
     (if in_range 16 magic \<and> in_range 8 version \<and> in_range 8 command \<and>
         in_range 32 sequence_number \<and> in_range 32 session_id \<and> in_range 64 logical_clock
      then Inr (header_bytes magic version command sequence_number session_id logical_clock)
      else Inl StructError)"

text \<open>
  \<^verbatim>\<open>struct.unpack("!HBBIIQ", buf)\<close>: \<^verbatim>\<open>struct.error\<close> unless the buffer has exactly 20
  bytes. The callers pass \<^verbatim>\<open>message[:20]\<close>, that is \<open>take 20 message\<close>.
\<close>

definition struct_unpack :: "bytes \<Rightarrow> error + (int \<times> int \<times> int \<times> int \<times> int \<times> int)" where
  "struct_unpack buf =
     (if length buf \<noteq> 20 then Inl StructError
      else Inr (from_bytes_be (take 2 buf),
                from_bytes_be (take 1 (drop 2 buf)),
                from_bytes_be (take 1 (drop 3 buf)),
                from_bytes_be (take 4 (drop 4 buf)),
                from_bytes_be (take 4 (drop 8 buf)),
                from_bytes_be (take 8 (drop 12 buf))))"

text \<open>
  \<^verbatim>\<open>struct.unpack("!I", buf)[0]\<close> and \<^verbatim>\<open>struct.unpack("!B", buf)[0]\<close>, which
  \<^verbatim>\<open>datagram_received\<close> of \<^verbatim>\<open>A/server.py\<close> applies to slices of the datagram.
\<close>

definition struct_unpack_I :: "bytes \<Rightarrow> error + int" where
  "struct_unpack_I buf = (if length buf \<noteq> 4 then Inl StructError else Inr (from_bytes_be buf))"

definition struct_unpack_B :: "bytes \<Rightarrow> error + int" where
  "struct_unpack_B buf = (if length buf \<noteq> 1 then Inl StructError else Inr (from_bytes_be buf))"

text \<open>
  \<^verbatim>\<open>payload.decode()\<close> is Python's strict UTF-8 decoder: it raises
  \<^verbatim>\<open>UnicodeDecodeError\<close> unless the bytes are well-formed UTF-8 (no overlong form, no
  surrogate, nothing above U+10FFFF). \<open>decodes\<close> says that it returns.
\<close>

definition continuation :: "byte \<Rightarrow> bool" where
  "continuation b = (128 \<le> unat b \<and> unat b \<le> 191)"

fun decodes :: "bytes \<Rightarrow> bool" where
  "decodes [] = True"
| "decodes (b # bs) =
     (if unat b \<le> 127 then decodes bs
      else if 194 \<le> unat b \<and> unat b \<le> 223 then
        (case bs of c1 # r \<Rightarrow> continuation c1 \<and> decodes r | _ \<Rightarrow> False)
      else if 224 \<le> unat b \<and> unat b \<le> 239 then
        (case bs of
           c1 # c2 # r \<Rightarrow>
             (if unat b = 224 then 160 \<le> unat c1 \<and> unat c1 \<le> 191
              else if unat b = 237 then 128 \<le> unat c1 \<and> unat c1 \<le> 159
              else continuation c1) \<and>
             continuation c2 \<and> decodes r
         | _ \<Rightarrow> False)
      else if 240 \<le> unat b \<and> unat b \<le> 244 then
        (case bs of
           c1 # c2 # c3 # r \<Rightarrow>
             (if unat b = 240 then 144 \<le> unat c1 \<and> unat c1 \<le> 191
              else if unat b = 244 then 128 \<le> unat c1 \<and> unat c1 \<le> 143
              else continuation c1) \<and>
             continuation c2 \<and> continuation c3 \<and> decodes r
         | _ \<Rightarrow> False)
      else False)"

section \<open>A/server.py\<close>

text \<open>
  A peer address is the pair \<^verbatim>\<open>(host, port)\<close>. The session's \<^verbatim>\<open>state\<close> is one of three
  strings. Session objects are shared between the table \<^verbatim>\<open>sessions\<close> and the running
  handlers, and live on after \<^verbatim>\<open>del self.server.sessions[...]\<close>, so they are kept in an
  explicit store \<open>objects_A\<close> indexed by references; \<open>allocated_A\<close> is the next fresh
  reference. \<open>idle_timer_A\<close> says whether \<^verbatim>\<open>self.idle_timer\<close> holds a task (it is not
  \<^verbatim>\<open>None\<close>); the length of the timeout (20 seconds) is not modelled. \<open>transport_A\<close>
  lists the datagrams handed to \<^verbatim>\<open>transport.sendto\<close>, oldest first, and \<open>console_A\<close> the
  lines printed.
\<close>

type_synonym addr = "string \<times> int"

datatype state = WAIT_FOR_HELLO | RECEIVE | DONE

datatype line_A =
    Session_timeout addr
  | Received_HELLO addr int
  | HELLO_in_state state
  | Received_DATA addr bytes
  | Lost_packet int addr
  | Duplicate_packet int addr
  | Out_of_order addr
  | Received_GOODBYE addr
  | Terminated addr
  | Invalid_message addr
  | Invalid_session_id addr
  | Unknown_command addr
  | Ignoring_client addr int
  | Invalid_initial_message addr
  | Struct_error

record ServerSession_A =
  client_address_A :: addr
  session_id_A :: int
  expected_sequence_number_A :: int
  state_A :: state
  idle_timer_A :: bool

record UDPServerProtocol_A =
  sessions_A :: "int \<rightharpoonup> nat"
  client_addresses_A :: "int \<rightharpoonup> addr"
  logical_clock_A :: int
  transport_A :: "(bytes \<times> addr) list"
  console_A :: "line_A list"
  objects_A :: "nat \<Rightarrow> ServerSession_A"
  allocated_A :: nat

text \<open>
  A method returns the exception it raised, if any, and the state it left behind: what
  it had assigned before raising stays assigned.
\<close>

type_synonym result_A = "error option \<times> UDPServerProtocol_A"

definition print_A :: "line_A \<Rightarrow> UDPServerProtocol_A \<Rightarrow> UDPServerProtocol_A" where
  "print_A l srv = srv\<lparr>console_A := console_A srv @ [l]\<rparr>"

text \<open>Assignment to fields of the session object \<open>self\<close>.\<close>

definition assign_A ::
  "nat \<Rightarrow> (ServerSession_A \<Rightarrow> ServerSession_A) \<Rightarrow> UDPServerProtocol_A \<Rightarrow> UDPServerProtocol_A" where
  "assign_A self f srv = srv\<lparr>objects_A := (objects_A srv)(self := f (objects_A srv self))\<rparr>"

text \<open>\<^verbatim>\<open>ServerSession.__init__\<close>.\<close>

definition ServerSession_init_A :: "addr \<Rightarrow> int \<Rightarrow> int \<Rightarrow> ServerSession_A" where
  "ServerSession_init_A client_address session_id initial_sequence_number =
     \<lparr>client_address_A = client_address,
      session_id_A = session_id,
      expected_sequence_number_A = initial_sequence_number + 1,
      state_A = WAIT_FOR_HELLO,
      idle_timer_A = False\<rparr>"

text \<open>\<^verbatim>\<open>UDPServerProtocol.update_logical_clock\<close>; the value returned is the clock stored.\<close>

definition update_logical_clock_A :: "int option \<Rightarrow> UDPServerProtocol_A \<Rightarrow> UDPServerProtocol_A" where
  "update_logical_clock_A received_clock srv =
     (if received_clock \<noteq> None \<and> the received_clock > logical_clock_A srv
      then srv\<lparr>logical_clock_A := the received_clock + 1\<rparr>
      else srv\<lparr>logical_clock_A := logical_clock_A srv + 1\<rparr>)"

definition cancel_timer_A :: "nat \<Rightarrow> UDPServerProtocol_A \<Rightarrow> UDPServerProtocol_A" where
  "cancel_timer_A self srv =
     (if idle_timer_A (objects_A srv self)
      then assign_A self (\<lambda>s. s\<lparr>idle_timer_A := False\<rparr>) srv
      else srv)"

definition set_timer_A :: "nat \<Rightarrow> UDPServerProtocol_A \<Rightarrow> UDPServerProtocol_A" where
  "set_timer_A self srv = assign_A self (\<lambda>s. s\<lparr>idle_timer_A := True\<rparr>) (cancel_timer_A self srv)"

text \<open>
  \<^verbatim>\<open>send_message(command, sequence_number=0, data=None)\<close>: the clock ticks first, then
  the header is packed with the new value. \<^verbatim>\<open>if data:\<close> is false for \<^verbatim>\<open>None\<close> and for
  empty bytes.
\<close>

definition send_message_A :: "nat \<Rightarrow> int \<Rightarrow> int \<Rightarrow> bytes option \<Rightarrow> UDPServerProtocol_A \<Rightarrow> result_A" where
  "send_message_A self command sequence_number data srv =
     (let srv1 = update_logical_clock_A None srv;
          logical_clock_value = logical_clock_A srv1
      in case struct_pack 0xC461 1 command sequence_number
                (session_id_A (objects_A srv1 self)) logical_clock_value of
           Inl e \<Rightarrow> (Some e, srv1)
         | Inr header \<Rightarrow>
             (let message = (case data of
                               None \<Rightarrow> header
                             | Some d \<Rightarrow> if d = [] then header else header @ d)
              in (None, srv1\<lparr>transport_A := transport_A srv1 @
                                  [(message, client_address_A (objects_A srv1 self))]\<rparr>)))"

text \<open>\<^verbatim>\<open>terminate\<close>: \<^verbatim>\<open>del\<close> raises \<^verbatim>\<open>KeyError\<close> for a key that is not in the table.\<close>

definition terminate_A :: "nat \<Rightarrow> UDPServerProtocol_A \<Rightarrow> result_A" where
  "terminate_A self srv =
     (let srv1 = print_A (Terminated (client_address_A (objects_A srv self))) srv;
          srv2 = cancel_timer_A self srv1
      in case sessions_A srv2 (session_id_A (objects_A srv2 self)) of
           None \<Rightarrow> (Some KeyError, srv2)
         | Some _ \<Rightarrow>
             (None, srv2\<lparr>sessions_A := (sessions_A srv2)(session_id_A (objects_A srv2 self) := None)\<rparr>))"

text \<open>
  The three statements \<^verbatim>\<open>await self.send_message(GOODBYE)\<close>, \<^verbatim>\<open>self.state = "DONE"\<close>,
  \<^verbatim>\<open>self.terminate()\<close>, which the source repeats wherever a session ends.
\<close>

definition goodbye_done_terminate_A :: "nat \<Rightarrow> UDPServerProtocol_A \<Rightarrow> result_A" where
  "goodbye_done_terminate_A self srv =
     (case send_message_A self GOODBYE 0 None srv of
        (Some e, srv1) \<Rightarrow> (Some e, srv1)
      | (None, srv1) \<Rightarrow> terminate_A self (assign_A self (\<lambda>s. s\<lparr>state_A := DONE\<rparr>) srv1))"

text \<open>\<^verbatim>\<open>session_timeout\<close>, from the point where \<^verbatim>\<open>asyncio.sleep\<close> has returned.\<close>

definition session_timeout_A :: "nat \<Rightarrow> UDPServerProtocol_A \<Rightarrow> result_A" where
  "session_timeout_A self srv =
     goodbye_done_terminate_A self
       (print_A (Session_timeout (client_address_A (objects_A srv self))) srv)"

definition handle_hello_A :: "nat \<Rightarrow> int \<Rightarrow> UDPServerProtocol_A \<Rightarrow> result_A" where
  "handle_hello_A self sequence_number srv =
     (if state_A (objects_A srv self) = WAIT_FOR_HELLO then
        (case send_message_A self HELLO sequence_number None
                (print_A (Received_HELLO (client_address_A (objects_A srv self))
                            (session_id_A (objects_A srv self))) srv) of
           (Some e, srv1) \<Rightarrow> (Some e, srv1)
         | (None, srv1) \<Rightarrow>
             (None, set_timer_A self (assign_A self (\<lambda>s. s\<lparr>state_A := RECEIVE\<rparr>) srv1)))
      else
        goodbye_done_terminate_A self
          (print_A (HELLO_in_state (state_A (objects_A srv self))) srv))"

text \<open>
  \<^verbatim>\<open>handle_data\<close>. The f-string of the \<^verbatim>\<open>Received DATA\<close> line calls \<^verbatim>\<open>data.decode()\<close>,
  which raises before anything is printed. \<open>[i..j]\<close> is the list of the integers from
  \<open>i\<close> to \<open>j\<close>, so \<^verbatim>\<open>range(a, b)\<close> is \<open>[a..b - 1]\<close>.
\<close>

definition handle_data_A :: "nat \<Rightarrow> int \<Rightarrow> bytes \<Rightarrow> int \<Rightarrow> UDPServerProtocol_A \<Rightarrow> result_A" where
  "handle_data_A self sequence_number data received_logical_clock srv =
     (if state_A (objects_A srv self) = RECEIVE then
        (let srv1 = update_logical_clock_A (Some received_logical_clock) srv;
             expected = expected_sequence_number_A (objects_A srv1 self);
             client_address = client_address_A (objects_A srv1 self)
         in if sequence_number = expected then
              (if \<not> decodes data then (Some UnicodeDecodeError, srv1)
               else
                 (case send_message_A self ALIVE sequence_number None
                         (assign_A self (\<lambda>s. s\<lparr>expected_sequence_number_A := expected + 1\<rparr>)
                            (print_A (Received_DATA client_address data) srv1)) of
                    (Some e, srv2) \<Rightarrow> (Some e, srv2)
                  | (None, srv2) \<Rightarrow> (None, set_timer_A self srv2)))
            else if sequence_number > expected then
              (let srv2 = assign_A self (\<lambda>s. s\<lparr>expected_sequence_number_A := sequence_number + 1\<rparr>)
                            (srv1\<lparr>console_A := console_A srv1 @
                                     map (\<lambda>i. Lost_packet i client_address)
                                       [expected..sequence_number - 1]\<rparr>)
               in if \<not> decodes data then (Some UnicodeDecodeError, srv2)
                  else send_message_A self ALIVE sequence_number None
                         (print_A (Received_DATA client_address data) srv2))
            else if sequence_number = expected - 1 then
              (None, print_A (Duplicate_packet sequence_number client_address) srv1)
            else
              goodbye_done_terminate_A self (print_A (Out_of_order client_address) srv1))
      else (None, srv))"

definition handle_goodbye_A :: "nat \<Rightarrow> UDPServerProtocol_A \<Rightarrow> result_A" where
  "handle_goodbye_A self srv =
     (if state_A (objects_A srv self) = RECEIVE then
        goodbye_done_terminate_A self
          (print_A (Received_GOODBYE (client_address_A (objects_A srv self))) srv)
      else (None, srv))"

text \<open>\<^verbatim>\<open>handle_message\<close>: \<^verbatim>\<open>message[:20]\<close> is \<open>take 20\<close>, \<^verbatim>\<open>message[20:]\<close> is \<open>drop 20\<close>.\<close>

definition handle_message_A :: "nat \<Rightarrow> bytes \<Rightarrow> UDPServerProtocol_A \<Rightarrow> result_A" where
  "handle_message_A self message srv =
     (case struct_unpack (take 20 message) of
        Inl e \<Rightarrow> (Some e, srv)
      | Inr (magic_number, version, command, sequence_number, session_id, received_logical_clock) \<Rightarrow>
          (if magic_number \<noteq> 0xC461 \<or> version \<noteq> 1 then
             goodbye_done_terminate_A self
               (print_A (Invalid_message (client_address_A (objects_A srv self))) srv)
           else if session_id \<noteq> session_id_A (objects_A srv self) then
             goodbye_done_terminate_A self
               (print_A (Invalid_session_id (client_address_A (objects_A srv self))) srv)
           else if command = HELLO then handle_hello_A self sequence_number srv
           else if command = DATA then
             handle_data_A self sequence_number (drop 20 message) received_logical_clock srv
           else if command = GOODBYE then handle_goodbye_A self srv
           else
             goodbye_done_terminate_A self
               (print_A (Unknown_command (client_address_A (objects_A srv self))) srv)))"

text \<open>
  \<^verbatim>\<open>datagram_received\<close>. The three \<^verbatim>\<open>struct.unpack\<close> calls read the slices
  \<^verbatim>\<open>data[8:12]\<close>, \<^verbatim>\<open>data[4:8]\<close> and \<^verbatim>\<open>data[3:4]\<close>; their \<^verbatim>\<open>struct.error\<close> is caught
  and printed. \<^verbatim>\<open>asyncio.create_task(session.handle_message(data))\<close> is the last
  statement of its branch, and no \<^verbatim>\<open>await\<close> inside \<^verbatim>\<open>handle_message\<close> suspends (timers
  run as tasks of their own), so the task runs to its end before the event loop delivers
  anything else: the model runs it in place and returns the exception that ended the
  task, which the caller never sees.
\<close>

definition datagram_received_A :: "bytes \<Rightarrow> addr \<Rightarrow> UDPServerProtocol_A \<Rightarrow> result_A" where
  "datagram_received_A data addr srv =
     (case struct_unpack_I (take 4 (drop 8 data)) of
        Inl e \<Rightarrow> (None, print_A Struct_error srv)
      | Inr session_id \<Rightarrow>
     (case struct_unpack_I (take 4 (drop 4 data)) of
        Inl e \<Rightarrow> (None, print_A Struct_error srv)
      | Inr sequence_number \<Rightarrow>
     (case struct_unpack_B (take 1 (drop 3 data)) of
        Inl e \<Rightarrow> (None, print_A Struct_error srv)
      | Inr command \<Rightarrow>
     (case sessions_A srv session_id of
        Some session \<Rightarrow>
          (case client_addresses_A srv session_id of
             None \<Rightarrow> (Some KeyError, srv)
           | Some bound \<Rightarrow>
               if addr = bound then handle_message_A session data srv
               else (None, print_A (Ignoring_client addr session_id) srv))
      | None \<Rightarrow>
          if command = HELLO then
            (let new_session = allocated_A srv
             in handle_message_A new_session data
                  (srv\<lparr>objects_A := (objects_A srv)
                          (new_session := ServerSession_init_A addr session_id sequence_number),
                       allocated_A := Suc new_session,
                       sessions_A := (sessions_A srv)(session_id \<mapsto> new_session),
                       client_addresses_A := (client_addresses_A srv)(session_id \<mapsto> addr)\<rparr>))
          else (None, print_A (Invalid_initial_message addr) srv)))))"

text \<open>\<^verbatim>\<open>UDPServerProtocol.__init__\<close>; no session object exists yet.\<close>

definition UDPServerProtocol_init_A :: "ServerSession_A \<Rightarrow> UDPServerProtocol_A" where
  "UDPServerProtocol_init_A unallocated =
     \<lparr>sessions_A = Map.empty,
      client_addresses_A = Map.empty,
      logical_clock_A = 0,
      transport_A = [],
      console_A = [],
      objects_A = (\<lambda>_. unallocated),
      allocated_A = 0\<rparr>"

section \<open>B/server.py\<close>

text \<open>
  \<^verbatim>\<open>hex(n)\<close> and \<^verbatim>\<open>str.encode()\<close> (on ASCII text), which \<^verbatim>\<open>send_rejection\<close> uses to
  build its notice.
\<close>

definition hex_digit :: "nat \<Rightarrow> char" where
  "hex_digit d = ''0123456789abcdef'' ! d"

fun hex_digits :: "nat \<Rightarrow> string" where
  "hex_digits n = (if n < 16 then [hex_digit n] else hex_digits (n div 16) @ [hex_digit (n mod 16)])"

definition hex :: "int \<Rightarrow> string" where
  "hex n = (if n < 0 then ''-0x'' @ hex_digits (nat (- n)) else ''0x'' @ hex_digits (nat n))"

definition encode :: "string \<Rightarrow> bytes" where
  "encode s = map of_char s"

text \<open>
  The session of \<^verbatim>\<open>B/server.py\<close> has a flag \<^verbatim>\<open>active\<close> in place of a state, and a
  \<^verbatim>\<open>threading.Timer\<close> that \<^verbatim>\<open>cancel_timer\<close> cancels without dropping it: \<open>timer_B\<close> is
  \<open>None\<close> before the first timer, and then says whether the last timer made has been
  cancelled. The handlers run in threads of their own; the model is of one handler
  running alone. \<open>server_socket_B\<close> lists the datagrams handed to \<^verbatim>\<open>sendto\<close>.
\<close>

datatype timer = Started | Cancelled

datatype line_B =
    Timeout_B int
  | Received_HELLO_B int
  | Blank_B
  | Clock_value_B int
  | Lost_packets_B int int int
  | Duplicate_packet_B int
  | Received_DATA_B int bytes
  | Received_GOODBYE_B int
  | Invalid_packet_B addr
  | Error_decoding_B
  | Malformed_B
  | In_use_B int addr addr
  | New_session_B int addr
  | Not_found_B int addr

record ServerSession_B =
  client_address_B :: addr
  session_id_B :: int
  expected_sequence_B :: int
  active_B :: bool
  timer_B :: "timer option"

record UDPServer_B =
  sessions_B :: "int \<rightharpoonup> nat"
  logical_clock_B :: int
  server_socket_B :: "(bytes \<times> addr) list"
  console_B :: "line_B list"
  objects_B :: "nat \<Rightarrow> ServerSession_B"
  allocated_B :: nat

type_synonym result_B = "error option \<times> UDPServer_B"

definition print_B :: "line_B \<Rightarrow> UDPServer_B \<Rightarrow> UDPServer_B" where
  "print_B l srv = srv\<lparr>console_B := console_B srv @ [l]\<rparr>"

definition assign_B ::
  "nat \<Rightarrow> (ServerSession_B \<Rightarrow> ServerSession_B) \<Rightarrow> UDPServer_B \<Rightarrow> UDPServer_B" where
  "assign_B self f srv = srv\<lparr>objects_B := (objects_B srv)(self := f (objects_B srv self))\<rparr>"

text \<open>\<^verbatim>\<open>ServerSession.__init__\<close>: the constructor is not given the sequence number.\<close>

definition ServerSession_init_B :: "addr \<Rightarrow> int \<Rightarrow> ServerSession_B" where
  "ServerSession_init_B client_address session_id =
     \<lparr>client_address_B = client_address,
      session_id_B = session_id,
      expected_sequence_B = 0,
      active_B = True,
      timer_B = None\<rparr>"

definition update_logical_clock_B :: "int option \<Rightarrow> UDPServer_B \<Rightarrow> UDPServer_B" where
  "update_logical_clock_B received_clock srv =
     (if received_clock \<noteq> None \<and> the received_clock > logical_clock_B srv
      then srv\<lparr>logical_clock_B := the received_clock + 1\<rparr>
      else srv\<lparr>logical_clock_B := logical_clock_B srv + 1\<rparr>)"

definition set_timer_B :: "nat \<Rightarrow> UDPServer_B \<Rightarrow> UDPServer_B" where
  "set_timer_B self srv = assign_B self (\<lambda>s. s\<lparr>timer_B := Some Started\<rparr>) srv"

definition cancel_timer_B :: "nat \<Rightarrow> UDPServer_B \<Rightarrow> UDPServer_B" where
  "cancel_timer_B self srv =
     (if timer_B (objects_B srv self) \<noteq> None
      then assign_B self (\<lambda>s. s\<lparr>timer_B := Some Cancelled\<rparr>) srv
      else srv)"

definition start_B :: "nat \<Rightarrow> UDPServer_B \<Rightarrow> UDPServer_B" where
  "start_B self srv = set_timer_B self srv"

text \<open>\<^verbatim>\<open>send_message(command, seq_num, data=None)\<close>.\<close>

definition send_message_B :: "nat \<Rightarrow> int \<Rightarrow> int \<Rightarrow> bytes option \<Rightarrow> UDPServer_B \<Rightarrow> result_B" where
  "send_message_B self command seq_num data srv =
     (let srv1 = update_logical_clock_B None srv;
          current_clock_value = logical_clock_B srv1
      in case struct_pack 0xC461 1 command seq_num
                (session_id_B (objects_B srv1 self)) current_clock_value of
           Inl e \<Rightarrow> (Some e, srv1)
         | Inr header \<Rightarrow>
             (let message = header @ (case data of
                                        None \<Rightarrow> []
                                      | Some d \<Rightarrow> if d = [] then [] else d)
              in (None, srv1\<lparr>server_socket_B := server_socket_B srv1 @
                                  [(message, client_address_B (objects_B srv1 self))]\<rparr>)))"

definition send_goodbye_B :: "nat \<Rightarrow> UDPServer_B \<Rightarrow> result_B" where
  "send_goodbye_B self srv =
     send_message_B self GOODBYE (expected_sequence_B (objects_B srv self)) None srv"

text \<open>\<^verbatim>\<open>issue_timeout\<close>, the callback of the timer.\<close>

definition issue_timeout_B :: "nat \<Rightarrow> UDPServer_B \<Rightarrow> result_B" where
  "issue_timeout_B self srv =
     (case send_goodbye_B self (print_B (Timeout_B (session_id_B (objects_B srv self))) srv) of
        (Some e, srv1) \<Rightarrow> (Some e, srv1)
      | (None, srv1) \<Rightarrow> (None, assign_B self (\<lambda>s. s\<lparr>active_B := False\<rparr>) srv1))"

definition handle_hello_B :: "nat \<Rightarrow> int \<Rightarrow> UDPServer_B \<Rightarrow> result_B" where
  "handle_hello_B self seq_num srv =
     send_message_B self HELLO seq_num None
       (print_B (Received_HELLO_B (session_id_B (objects_B srv self))) srv)"

text \<open>
  \<^verbatim>\<open>handle_data\<close>. \<open>payload\<close> is \<^verbatim>\<open>None\<close> for a datagram of at most 20 bytes, and then
  \<^verbatim>\<open>payload.decode()\<close> raises \<^verbatim>\<open>AttributeError\<close>. \<open>accept\<close> is the last three statements,
  which the first branch falls through to.
\<close>

definition handle_data_B :: "nat \<Rightarrow> int \<Rightarrow> bytes option \<Rightarrow> int \<Rightarrow> UDPServer_B \<Rightarrow> result_B" where
  "handle_data_B self seq_num payload clock_value srv =
     (let srv1 = print_B (Clock_value_B clock_value) (print_B Blank_B srv);
          session_id = session_id_B (objects_B srv1 self);
          expected_sequence = expected_sequence_B (objects_B srv1 self);
          accept = (\<lambda>srv2.
            case payload of
              None \<Rightarrow> (Some AttributeError, srv2)
            | Some p \<Rightarrow>
                if \<not> decodes p then (Some UnicodeDecodeError, srv2)
                else send_message_B self ALIVE seq_num None
                       (assign_B self
                          (\<lambda>s. s\<lparr>expected_sequence_B := expected_sequence_B s + 1\<rparr>)
                          (print_B (Received_DATA_B session_id p) srv2)))
      in if seq_num > expected_sequence then
           accept (assign_B self (\<lambda>s. s\<lparr>expected_sequence_B := seq_num + 1\<rparr>)
                     (print_B (Lost_packets_B session_id expected_sequence seq_num) srv1))
         else if seq_num < expected_sequence then
           (None, print_B (Duplicate_packet_B session_id) srv1)
         else accept srv1)"

definition handle_goodbye_B :: "nat \<Rightarrow> UDPServer_B \<Rightarrow> result_B" where
  "handle_goodbye_B self srv =
     (case send_goodbye_B self
             (print_B (Received_GOODBYE_B (session_id_B (objects_B srv self))) srv) of
        (Some e, srv1) \<Rightarrow> (Some e, srv1)
      | (None, srv1) \<Rightarrow> (None, assign_B self (\<lambda>s. s\<lparr>active_B := False\<rparr>) srv1))"

text \<open>
  \<^verbatim>\<open>process_message\<close>: the \<^verbatim>\<open>try\<close> covers the handlers, so a \<^verbatim>\<open>struct.error\<close> of
  \<^verbatim>\<open>struct.pack\<close> in \<^verbatim>\<open>send_message\<close> is caught and printed too. A command other than
  HELLO, DATA and GOODBYE falls out of the chain.
\<close>

definition process_message_B :: "nat \<Rightarrow> bytes \<Rightarrow> UDPServer_B \<Rightarrow> result_B" where
  "process_message_B self message srv =
     (let srv1 = set_timer_B self (cancel_timer_B self srv)
      in case struct_unpack (take 20 message) of
           Inl e \<Rightarrow> (None, print_B Error_decoding_B srv1)
         | Inr (magic, version, command, seq_num, session_id, received_logical_clock) \<Rightarrow>
             (let payload = (if length message > 20 then Some (drop 20 message) else None)
              in if magic \<noteq> 0xC461 \<or> version \<noteq> 1 then
                   (None, print_B (Invalid_packet_B (client_address_B (objects_B srv1 self))) srv1)
                 else
                   (case (if command = HELLO then handle_hello_B self seq_num srv1
                          else if command = DATA then
                            handle_data_B self seq_num payload received_logical_clock srv1
                          else if command = GOODBYE then handle_goodbye_B self srv1
                          else (None, srv1)) of
                      (Some StructError, srv2) \<Rightarrow> (None, print_B Error_decoding_B srv2)
                    | r \<Rightarrow> r)))"

text \<open>
  \<^verbatim>\<open>send_rejection\<close>: the notice is the text itself, with no header.
\<close>

definition send_rejection_B :: "addr \<Rightarrow> int \<Rightarrow> UDPServer_B \<Rightarrow> UDPServer_B" where
  "send_rejection_B client_address session_id srv =
     (let rejection_message =
            encode (''Session ID '' @ hex session_id @
                    '' is already in use. Connection rejected.'')
      in srv\<lparr>server_socket_B := server_socket_B srv @ [(rejection_message, client_address)]\<rparr>)"

text \<open>
  \<^verbatim>\<open>handle_client\<close>. The session that \<^verbatim>\<open>del self.sessions[session_id]\<close> removes was
  found or stored under that key a few statements before, inside the same lock, so the
  \<^verbatim>\<open>del\<close> cannot raise. An exception of \<^verbatim>\<open>process_message\<close> ends the thread before
  the \<^verbatim>\<open>del\<close>.
\<close>

definition handle_client_B :: "bytes \<Rightarrow> addr \<Rightarrow> UDPServer_B \<Rightarrow> result_B" where
  "handle_client_B message client_address srv =
     (case struct_unpack (take 20 message) of
        Inl e \<Rightarrow> (None, print_B Malformed_B srv)
      | Inr (magic, version, command, seq_num, session_id, received_clock_value) \<Rightarrow>
          (let srv1 = update_logical_clock_B (Some received_clock_value) srv;
               process = (\<lambda>session srv2.
                 case process_message_B session message srv2 of
                   (Some e, srv3) \<Rightarrow> (Some e, srv3)
                 | (None, srv3) \<Rightarrow>
                     if \<not> active_B (objects_B srv3 session)
                     then (None, srv3\<lparr>sessions_B := (sessions_B srv3)(session_id := None)\<rparr>)
                     else (None, srv3))
           in case sessions_B srv1 session_id of
                Some session \<Rightarrow>
                  if client_address_B (objects_B srv1 session) \<noteq> client_address then
                    (None, send_rejection_B client_address session_id
                             (update_logical_clock_B None
                                (print_B (In_use_B session_id
                                            (client_address_B (objects_B srv1 session))
                                            client_address) srv1)))
                  else process session srv1
              | None \<Rightarrow>
                  if command = HELLO then
                    (let session = allocated_B srv1
                     in process session
                          (start_B session
                             ((print_B (New_session_B session_id client_address) srv1)
                                \<lparr>objects_B := (objects_B srv1)
                                   (session := ServerSession_init_B client_address session_id),
                                 allocated_B := Suc session,
                                 sessions_B := (sessions_B srv1)(session_id \<mapsto> session)\<rparr>)))
                  else (None, print_B (Not_found_B session_id client_address) srv1)))"

text \<open>\<^verbatim>\<open>UDPServer.__init__\<close>.\<close>

definition UDPServer_init_B :: "ServerSession_B \<Rightarrow> UDPServer_B" where
  "UDPServer_init_B unallocated =
     \<lparr>sessions_B = Map.empty,
      logical_clock_B = 0,
      server_socket_B = [],
      console_B = [],
      objects_B = (\<lambda>_. unallocated),
      allocated_B = 0\<rparr>"

section \<open>A/client.py\<close>

text \<open>
  Of the clients only the clock, the sending and the receiving of one datagram are
  modelled. \<open>client_socket_cA\<close> lists the datagrams sent to the server; the lines a
  client prints are left out, but not the exceptions that formatting them can raise.
\<close>

record Client_cA =
  magic_number_cA :: int
  version_cA :: int
  sequence_number_cA :: int
  session_id_cA :: int
  logical_clock_cA :: int
  client_socket_cA :: "bytes list"
  idle_timer_cA :: bool
  shutdown_event_cA :: bool

type_synonym result_cA = "error option \<times> Client_cA"

text \<open>\<^verbatim>\<open>Client.__init__\<close>, for the session id that \<^verbatim>\<open>random.randint\<close> gave.\<close>

definition Client_init_cA :: "int \<Rightarrow> Client_cA" where
  "Client_init_cA session_id =
     \<lparr>magic_number_cA = 0xC461,
      version_cA = 1,
      sequence_number_cA = 0,
      session_id_cA = session_id,
      logical_clock_cA = 0,
      client_socket_cA = [],
      idle_timer_cA = False,
      shutdown_event_cA = False\<rparr>"

definition update_logical_clock_cA :: "int option \<Rightarrow> Client_cA \<Rightarrow> Client_cA" where
  "update_logical_clock_cA new_value cl =
     (case new_value of
        Some v \<Rightarrow>
          if v > logical_clock_cA cl then cl\<lparr>logical_clock_cA := v + 1\<rparr>
          else cl\<lparr>logical_clock_cA := logical_clock_cA cl + 1\<rparr>
      | None \<Rightarrow> cl\<lparr>logical_clock_cA := logical_clock_cA cl + 1\<rparr>)"

definition cancel_timer_cA :: "Client_cA \<Rightarrow> Client_cA" where
  "cancel_timer_cA cl = (if idle_timer_cA cl then cl\<lparr>idle_timer_cA := False\<rparr> else cl)"

text \<open>\<^verbatim>\<open>send_message(command, data=None)\<close>: \<^verbatim>\<open>if data is not None\<close>.\<close>

definition send_message_cA :: "int \<Rightarrow> bytes option \<Rightarrow> Client_cA \<Rightarrow> result_cA" where
  "send_message_cA command data cl =
     (let cl1 = update_logical_clock_cA None cl;
          logical_clock_value = logical_clock_cA cl1
      in case struct_pack (magic_number_cA cl1) (version_cA cl1) command
                (sequence_number_cA cl1) (session_id_cA cl1) logical_clock_value of
           Inl e \<Rightarrow> (Some e, cl1)
         | Inr header \<Rightarrow>
             (let message = (case data of None \<Rightarrow> header | Some d \<Rightarrow> header @ d);
                  cl2 = cl1\<lparr>client_socket_cA := client_socket_cA cl1 @ [message],
                            sequence_number_cA := sequence_number_cA cl1 + 1\<rparr>
              in (None, if command = GOODBYE then cl2\<lparr>shutdown_event_cA := True\<rparr> else cl2)))"

text \<open>
  \<^verbatim>\<open>decode_message\<close> returns \<^verbatim>\<open>(command, logical_clock_value)\<close>, or \<^verbatim>\<open>None\<close> after a
  \<^verbatim>\<open>struct.error\<close>; its print decodes a payload that is not empty.
\<close>

definition decode_message_cA :: "bytes \<Rightarrow> Client_cA \<Rightarrow> error option \<times> (int \<times> int) option \<times> Client_cA" where
  "decode_message_cA message cl =
     (case struct_unpack (take 20 message) of
        Inl e \<Rightarrow> (None, None, cl\<lparr>shutdown_event_cA := True\<rparr>)
      | Inr (magic_number, version, command, sequence_number, session_id, logical_clock_value) \<Rightarrow>
          (let payload = drop 20 message
           in if payload \<noteq> [] \<and> \<not> decodes payload then (Some UnicodeDecodeError, None, cl)
              else (None, Some (command, logical_clock_value), cl)))"

text \<open>
  One pass of the loop of \<^verbatim>\<open>receive_message\<close>, for the datagram \<open>response\<close> that
  \<^verbatim>\<open>recvfrom\<close> returned. Unpacking \<^verbatim>\<open>None\<close> into two names raises \<^verbatim>\<open>TypeError\<close>.
\<close>

definition receive_message_cA :: "bytes \<Rightarrow> Client_cA \<Rightarrow> result_cA" where
  "receive_message_cA response cl =
     (case decode_message_cA response (cancel_timer_cA cl) of
        (Some e, _, cl1) \<Rightarrow> (Some e, cl1)
      | (None, None, cl1) \<Rightarrow> (Some TypeError, cl1)
      | (None, Some (command, received_clock_value), cl1) \<Rightarrow>
          (let cl2 = update_logical_clock_cA (Some received_clock_value) cl1
           in (None, if command = GOODBYE then cl2\<lparr>shutdown_event_cA := True\<rparr> else cl2)))"

section \<open>B/client.py\<close>

text \<open>\<open>closed_cB\<close> says that \<^verbatim>\<open>transport.close()\<close> has been called.\<close>

record AsyncUDPClient_cB =
  session_id_cB :: int
  sequence_number_cB :: int
  logical_clock_cB :: int
  transport_cB :: "bytes list"
  closed_cB :: bool

type_synonym result_cB = "error option \<times> AsyncUDPClient_cB"

definition AsyncUDPClient_init_cB :: "int \<Rightarrow> AsyncUDPClient_cB" where
  "AsyncUDPClient_init_cB session_id =
     \<lparr>session_id_cB = session_id,
      sequence_number_cB = 0,
      logical_clock_cB = 0,
      transport_cB = [],
      closed_cB = False\<rparr>"

definition update_logical_clock_cB :: "int option \<Rightarrow> AsyncUDPClient_cB \<Rightarrow> AsyncUDPClient_cB" where
  "update_logical_clock_cB new_value cl =
     (case new_value of
        Some v \<Rightarrow>
          if v > logical_clock_cB cl then cl\<lparr>logical_clock_cB := v + 1\<rparr>
          else cl\<lparr>logical_clock_cB := logical_clock_cB cl + 1\<rparr>
      | None \<Rightarrow> cl\<lparr>logical_clock_cB := logical_clock_cB cl + 1\<rparr>)"

text \<open>
  \<^verbatim>\<open>send_message(command, data=None)\<close>: the header is packed with the clock as it
  stands, and the clock ticks after the datagram has gone out.
\<close>

definition send_message_cB :: "int \<Rightarrow> bytes option \<Rightarrow> AsyncUDPClient_cB \<Rightarrow> result_cB" where
  "send_message_cB command data cl =
     (case struct_pack 0xC461 1 command (sequence_number_cB cl) (session_id_cB cl)
             (logical_clock_cB cl) of
        Inl e \<Rightarrow> (Some e, cl)
      | Inr header \<Rightarrow>
          (let message = header @ (case data of
                                     None \<Rightarrow> []
                                   | Some d \<Rightarrow> if d = [] then [] else d)
           in (None, update_logical_clock_cB None
                       (cl\<lparr>transport_cB := transport_cB cl @ [message],
                           sequence_number_cB := sequence_number_cB cl + 1\<rparr>))))"

text \<open>\<^verbatim>\<open>handle_response\<close>; only its last branch decodes the payload.\<close>

definition handle_response_cB :: "bytes \<Rightarrow> AsyncUDPClient_cB \<Rightarrow> result_cB" where
  "handle_response_cB message cl =
     (case struct_unpack (take 20 message) of
        Inl e \<Rightarrow> (Some e, cl)
      | Inr (magic_number, version, command, sequence_number, session_id, received_clock_value) \<Rightarrow>
          (let cl1 = update_logical_clock_cB (Some received_clock_value) cl;
               payload = (if length message > 20 then drop 20 message else [])
           in if magic_number \<noteq> 0xC461 \<or> version \<noteq> 1 then (None, cl1)
              else if session_id \<noteq> session_id_cB cl1 then (None, cl1)
              else if command = ALIVE then (None, cl1)
              else if command = GOODBYE then (None, cl1\<lparr>closed_cB := True\<rparr>)
              else if payload \<noteq> [] \<and> \<not> decodes payload then (Some UnicodeDecodeError, cl1)
              else (None, cl1)))"

section \<open>Ticks and datagrams\<close>

text \<open>
  The clock of a server less the number of datagrams it has sent: a send that ticks
  once leaves this number as it is, and a tick without a send raises it by one.
\<close>

definition unsent_A :: "UDPServerProtocol_A \<Rightarrow> int" where
  "unsent_A srv = logical_clock_A srv - int (length (transport_A srv))"

definition unsent_B :: "UDPServer_B \<Rightarrow> int" where
  "unsent_B srv = logical_clock_B srv - int (length (server_socket_B srv))"

section \<open>States used as examples\<close>

text \<open>
  A server of each kind with one session: id 7, bound to 10.0.0.1 port 4000, expecting
  sequence number 5, the server's clock at 10.
\<close>

definition example_session_A :: ServerSession_A where
  "example_session_A =
     \<lparr>client_address_A = (''10.0.0.1'', 4000),
      session_id_A = 7,
      expected_sequence_number_A = 5,
      state_A = RECEIVE,
      idle_timer_A = True\<rparr>"

definition example_A :: UDPServerProtocol_A where
  "example_A =
     \<lparr>sessions_A = [7 \<mapsto> 0],
      client_addresses_A = [7 \<mapsto> (''10.0.0.1'', 4000)],
      logical_clock_A = 10,
      transport_A = [],
      console_A = [],
      objects_A = (\<lambda>_. example_session_A),
      allocated_A = 1\<rparr>"

definition example_session_B :: ServerSession_B where
  "example_session_B =
     \<lparr>client_address_B = (''10.0.0.1'', 4000),
      session_id_B = 7,
      expected_sequence_B = 5,
      active_B = True,
      timer_B = Some Started\<rparr>"

definition example_B :: UDPServer_B where
  "example_B =
     \<lparr>sessions_B = [7 \<mapsto> 0],
      logical_clock_B = 10,
      server_socket_B = [],
      console_B = [],
      objects_B = (\<lambda>_. example_session_B),
      allocated_B = 1\<rparr>"

text \<open>
  Datagrams from 10.0.0.1 for session 7: a DATA numbered 5 with the payload \<^verbatim>\<open>hi\<close> and
  clock 3, the same with the magic number zeroed, a HELLO numbered 5, a HELLO numbered 0
  cut after its first 12 bytes, and a DATA numbered 1. Then the datagrams of a client
  that numbers its HELLO 0, and three datagrams stamped with the clock 100.
\<close>

definition example_data :: bytes where
  "example_data = header_bytes 0xC461 1 DATA 5 7 3 @ [104, 105]"

definition example_bad_magic :: bytes where
  "example_bad_magic = header_bytes 0 1 DATA 5 7 3 @ [104, 105]"

definition example_hello :: bytes where
  "example_hello = header_bytes 0xC461 1 HELLO 5 7 0"

definition example_short_hello :: bytes where
  "example_short_hello = [196, 97, 1, 1, 0, 0, 0, 0, 0, 0, 0, 7]"

definition example_data_1 :: bytes where
  "example_data_1 =
     [196, 97, 1, 2, 0, 0, 0, 1, 0, 0, 0, 7, 0, 0, 0, 0, 0, 0, 0, 3, 104, 105]"

definition example_hello_0 :: bytes where
  "example_hello_0 = header_bytes 0xC461 1 HELLO 0 7 0"

definition example_data_2 :: bytes where
  "example_data_2 = header_bytes 0xC461 1 DATA 2 7 5 @ [104, 105]"

definition example_hello_100 :: bytes where
  "example_hello_100 = header_bytes 0xC461 1 HELLO 0 7 100"

definition example_goodbye_100 :: bytes where
  "example_goodbye_100 = header_bytes 0xC461 1 GOODBYE 6 7 100"

definition example_data_100 :: bytes where
  "example_data_100 = header_bytes 0xC461 1 DATA 5 7 100 @ [104, 105]"

text \<open>
  The server of \<^verbatim>\<open>A/server.py\<close> after the shortened HELLO has been its first datagram.
\<close>

definition example_waiting_A :: UDPServerProtocol_A where
  "example_waiting_A =
     snd (datagram_received_A example_short_hello (''10.0.0.1'', 4000)
            (UDPServerProtocol_init_A example_session_A))"

section \<open>Facts about the wire format\<close>

lemma length_to_bytes_be: "length (to_bytes_be n v) = n"
  by (induction n arbitrary: v) simp_all

lemma div_256_less:
  fixes v :: int
  assumes "v < 2 ^ (8 * Suc n)"
  shows "v div 256 < 2 ^ (8 * n)"
proof -
  have split: "v = 256 * (v div 256) + v mod 256"
    by simp
  have rest: "0 \<le> v mod 256"
    by simp
  have bound: "v < 256 * 2 ^ (8 * n)"
    using assms by (simp add: power_add)
  show ?thesis
    using split rest bound by linarith
qed

lemma from_bytes_be_snoc: "from_bytes_be (bs @ [b]) = from_bytes_be bs * 256 + uint b"
  by (simp add: from_bytes_be_def)

lemma from_to_bytes_be: "in_range (8 * n) v \<Longrightarrow> from_bytes_be (to_bytes_be n v) = v"
proof (induction n arbitrary: v)
  case 0
  then show ?case
    by (simp add: from_bytes_be_def in_range_def)
next
  case (Suc n)
  from Suc.prems have "0 \<le> v" and "v < 2 ^ (8 * Suc n)"
    by (simp_all add: in_range_def)
  then have "in_range (8 * n) (v div 256)"
    using div_256_less [of v n] by (simp add: in_range_def)
  then have "from_bytes_be (to_bytes_be n (v div 256)) = v div 256"
    by (rule Suc.IH)
  then show ?case
    by (simp add: from_bytes_be_snoc uint_word_of_int)
qed

lemma from_to_bytes_be_fields:
  "in_range 8 v \<Longrightarrow> from_bytes_be (to_bytes_be 1 v) = v"
  "in_range 16 v \<Longrightarrow> from_bytes_be (to_bytes_be 2 v) = v"
  "in_range 32 v \<Longrightarrow> from_bytes_be (to_bytes_be 4 v) = v"
  "in_range 64 v \<Longrightarrow> from_bytes_be (to_bytes_be 8 v) = v"
  "in_range 8 v \<Longrightarrow> from_bytes_be (to_bytes_be (Suc 0) v) = v"
  using from_to_bytes_be [of 1 v] from_to_bytes_be [of 2 v]
    from_to_bytes_be [of 4 v] from_to_bytes_be [of 8 v]
  by simp_all

lemma in_range_from_bytes_be: "in_range (8 * length bs) (from_bytes_be bs)"
proof (induction bs rule: rev_induct)
  case Nil
  show ?case
    by (simp add: in_range_def from_bytes_be_def)
next
  case (snoc b bs)
  have byte: "0 \<le> uint b" "uint b < 256"
    using uint_lt2p [of b] by simp_all
  from snoc have "0 \<le> from_bytes_be bs" and "from_bytes_be bs + 1 \<le> 2 ^ (8 * length bs)"
    by (simp_all add: in_range_def)
  then have "0 \<le> from_bytes_be bs * 256 + uint b"
    and "from_bytes_be bs * 256 + uint b < 2 ^ (8 * length bs) * 256"
    using byte by linarith+
  then show ?case
    by (simp add: in_range_def from_bytes_be_snoc power_add mult.commute)
qed

text \<open>What \<^verbatim>\<open>struct.pack\<close> returns, \<^verbatim>\<open>struct.unpack\<close> reads back.\<close>

lemma length_header_bytes:
  "length (header_bytes magic version command sequence_number session_id logical_clock) = 20"
  by (simp add: header_bytes_def length_to_bytes_be del: to_bytes_be.simps)

lemma struct_pack_Inr:
  assumes "in_range 16 magic" "in_range 8 version" "in_range 8 command"
    "in_range 32 sequence_number" "in_range 32 session_id" "in_range 64 logical_clock"
  shows "struct_pack magic version command sequence_number session_id logical_clock =
     Inr (header_bytes magic version command sequence_number session_id logical_clock)"
  using assms by (simp add: struct_pack_def)

lemma struct_unpack_header_bytes:
  assumes "in_range 16 magic" "in_range 8 version" "in_range 8 command"
    "in_range 32 sequence_number" "in_range 32 session_id" "in_range 64 logical_clock"
  shows "struct_unpack (header_bytes magic version command sequence_number session_id logical_clock) =
     Inr (magic, version, command, sequence_number, session_id, logical_clock)"
  unfolding struct_unpack_def header_bytes_def
  using assms by (simp add: length_to_bytes_be from_to_bytes_be_fields del: to_bytes_be.simps)

lemma struct_unpack_in_range:
  assumes "struct_unpack buf =
     Inr (magic, version, command, sequence_number, session_id, logical_clock)"
  shows "in_range 16 magic" "in_range 8 version" "in_range 8 command"
    "in_range 32 sequence_number" "in_range 32 session_id" "in_range 64 logical_clock"
proof -
  have len: "length buf = 20"
    using assms by (simp add: struct_unpack_def split: if_splits)
  have fields: "magic = from_bytes_be (take 2 buf)" "version = from_bytes_be (take 1 (drop 2 buf))"
    "command = from_bytes_be (take 1 (drop 3 buf))"
    "sequence_number = from_bytes_be (take 4 (drop 4 buf))"
    "session_id = from_bytes_be (take 4 (drop 8 buf))"
    "logical_clock = from_bytes_be (take 8 (drop 12 buf))"
    using assms by (simp_all add: struct_unpack_def split: if_splits)
  show "in_range 16 magic"
    using in_range_from_bytes_be [of "take 2 buf"] len by (simp add: fields)
  show "in_range 8 version"
    using in_range_from_bytes_be [of "take 1 (drop 2 buf)"] len by (simp add: fields)
  show "in_range 8 command"
    using in_range_from_bytes_be [of "take 1 (drop 3 buf)"] len by (simp add: fields)
  show "in_range 32 sequence_number"
    using in_range_from_bytes_be [of "take 4 (drop 4 buf)"] len by (simp add: fields)
  show "in_range 32 session_id"
    using in_range_from_bytes_be [of "take 4 (drop 8 buf)"] len by (simp add: fields)
  show "in_range 64 logical_clock"
    using in_range_from_bytes_be [of "take 8 (drop 12 buf)"] len by (simp add: fields)
qed

lemma take_drop_header_bytes:
  "take 20 (header_bytes magic version command sequence_number session_id logical_clock @ payload) =
     header_bytes magic version command sequence_number session_id logical_clock"
  "drop 20 (header_bytes magic version command sequence_number session_id logical_clock @ payload) =
     payload"
  by (simp_all add: length_header_bytes)

lemma struct_unpack_slices:
  assumes "struct_unpack (take 20 data) =
     Inr (magic, version, command, sequence_number, session_id, logical_clock)"
  shows "struct_unpack_I (take 4 (drop 8 data)) = Inr session_id"
    and "struct_unpack_I (take 4 (drop 4 data)) = Inr sequence_number"
    and "struct_unpack_B (take 1 (drop 3 data)) = Inr command"
proof -
  have len: "20 \<le> length data"
    using assms by (simp add: struct_unpack_def split: if_splits)
  show "struct_unpack_I (take 4 (drop 8 data)) = Inr session_id"
    using assms len by (simp add: struct_unpack_def struct_unpack_I_def drop_take split: if_splits)
  show "struct_unpack_I (take 4 (drop 4 data)) = Inr sequence_number"
    using assms len by (simp add: struct_unpack_def struct_unpack_I_def drop_take split: if_splits)
  show "struct_unpack_B (take 1 (drop 3 data)) = Inr command"
    using assms len by (simp add: struct_unpack_def struct_unpack_B_def drop_take split: if_splits)
qed

section \<open>Facts about A/server.py\<close>

lemma commands_in_range: "in_range 8 HELLO" "in_range 8 DATA" "in_range 8 ALIVE" "in_range 8 GOODBYE"
  by (simp_all add: in_range_def HELLO_def DATA_def ALIVE_def GOODBYE_def)

lemma constants_in_range: "in_range 16 0xC461" "in_range 8 1" "in_range 32 0"
  by (simp_all add: in_range_def)

text \<open>A send whose fields fit their formats: one tick, one datagram.\<close>

lemma send_message_A_sends:
  assumes "in_range 8 command" "in_range 32 sequence_number"
    "in_range 32 (session_id_A (objects_A srv self))" "in_range 64 (logical_clock_A srv + 1)"
  shows "send_message_A self command sequence_number None srv =
     (None, srv\<lparr>logical_clock_A := logical_clock_A srv + 1,
                transport_A := transport_A srv @
                  [(header_bytes 0xC461 1 command sequence_number
                      (session_id_A (objects_A srv self)) (logical_clock_A srv + 1),
                    client_address_A (objects_A srv self))]\<rparr>)"
  using assms
  by (simp add: send_message_A_def update_logical_clock_A_def struct_pack_Inr
      constants_in_range Let_def)

lemma terminate_A_removes:
  "terminate_A self srv =
     (case sessions_A srv (session_id_A (objects_A srv self)) of
        None \<Rightarrow> Some KeyError
      | Some _ \<Rightarrow> None,
      (assign_A self (\<lambda>s. s\<lparr>idle_timer_A := False\<rparr>) srv)
        \<lparr>console_A := console_A srv @ [Terminated (client_address_A (objects_A srv self))],
         sessions_A := (sessions_A srv)(session_id_A (objects_A srv self) := None)\<rparr>)"
  by (auto simp add: terminate_A_def cancel_timer_A_def assign_A_def print_A_def Let_def
      fun_upd_idem split: option.split)

lemma goodbye_done_terminate_A_ends:
  assumes "in_range 32 (session_id_A (objects_A srv self))"
    "in_range 64 (logical_clock_A srv + 1)"
  shows "goodbye_done_terminate_A self srv =
     (case sessions_A srv (session_id_A (objects_A srv self)) of
        None \<Rightarrow> Some KeyError
      | Some _ \<Rightarrow> None,
      (assign_A self (\<lambda>s. s\<lparr>state_A := DONE, idle_timer_A := False\<rparr>) srv)
        \<lparr>logical_clock_A := logical_clock_A srv + 1,
         transport_A := transport_A srv @
           [(header_bytes 0xC461 1 GOODBYE 0 (session_id_A (objects_A srv self))
               (logical_clock_A srv + 1),
             client_address_A (objects_A srv self))],
         console_A := console_A srv @ [Terminated (client_address_A (objects_A srv self))],
         sessions_A := (sessions_A srv)(session_id_A (objects_A srv self) := None)\<rparr>)"
  using assms
  by (simp add: goodbye_done_terminate_A_def send_message_A_sends commands_in_range
      constants_in_range terminate_A_removes assign_A_def)

lemma update_logical_clock_A_max:
  "update_logical_clock_A (Some v) srv =
     srv\<lparr>logical_clock_A := max (logical_clock_A srv) v + 1\<rparr>"
  by (simp add: update_logical_clock_A_def max_def)

text \<open>\<^verbatim>\<open>handle_data\<close> in state \<^verbatim>\<open>RECEIVE\<close>, one lemma for each branch.\<close>

lemma handle_data_A_expected:
  assumes "state_A (objects_A srv self) = RECEIVE"
    and "expected_sequence_number_A (objects_A srv self) = s"
    and "decodes data"
    and "in_range 32 s"
    and "in_range 32 (session_id_A (objects_A srv self))"
    and "in_range 64 (max (logical_clock_A srv) v + 2)"
  shows "handle_data_A self s data v srv =
     (None,
      (assign_A self (\<lambda>m. m\<lparr>expected_sequence_number_A := s + 1, idle_timer_A := True\<rparr>) srv)
        \<lparr>logical_clock_A := max (logical_clock_A srv) v + 2,
         transport_A := transport_A srv @
           [(header_bytes 0xC461 1 ALIVE s (session_id_A (objects_A srv self))
               (max (logical_clock_A srv) v + 2),
             client_address_A (objects_A srv self))],
         console_A := console_A srv @
           [Received_DATA (client_address_A (objects_A srv self)) data]\<rparr>)"
proof -
  have clock: "in_range 64 (max (logical_clock_A srv) v + 1 + 1)"
    using assms(6) by (simp add: add.commute)
  show ?thesis
    using assms(1-5) clock
    apply (simp add: handle_data_A_def update_logical_clock_A_max Let_def send_message_A_sends
        commands_in_range assign_A_def print_A_def set_timer_A_def cancel_timer_A_def)
    apply (rule UDPServerProtocol_A.equality; simp add: add.commute)
    done
qed

lemma handle_data_A_gap:
  assumes "state_A (objects_A srv self) = RECEIVE"
    and "expected_sequence_number_A (objects_A srv self) < s"
    and "decodes data"
    and "in_range 32 s"
    and "in_range 32 (session_id_A (objects_A srv self))"
    and "in_range 64 (max (logical_clock_A srv) v + 2)"
  shows "handle_data_A self s data v srv =
     (None,
      (assign_A self (\<lambda>m. m\<lparr>expected_sequence_number_A := s + 1\<rparr>) srv)
        \<lparr>logical_clock_A := max (logical_clock_A srv) v + 2,
         transport_A := transport_A srv @
           [(header_bytes 0xC461 1 ALIVE s (session_id_A (objects_A srv self))
               (max (logical_clock_A srv) v + 2),
             client_address_A (objects_A srv self))],
         console_A := console_A srv @
           map (\<lambda>i. Lost_packet i (client_address_A (objects_A srv self)))
             [expected_sequence_number_A (objects_A srv self)..s - 1] @
           [Received_DATA (client_address_A (objects_A srv self)) data]\<rparr>)"
proof -
  have clock: "in_range 64 (max (logical_clock_A srv) v + 1 + 1)"
    using assms(6) by (simp add: add.commute)
  show ?thesis
    using assms(1-5) clock
    apply (simp add: handle_data_A_def update_logical_clock_A_max Let_def send_message_A_sends
        commands_in_range assign_A_def print_A_def)
    apply (rule UDPServerProtocol_A.equality; simp add: add.commute)
    done
qed

lemma handle_data_A_duplicate:
  assumes "state_A (objects_A srv self) = RECEIVE"
    and "s = expected_sequence_number_A (objects_A srv self) - 1"
  shows "handle_data_A self s data v srv =
     (None,
      srv\<lparr>logical_clock_A := max (logical_clock_A srv) v + 1,
          console_A := console_A srv @
            [Duplicate_packet s (client_address_A (objects_A srv self))]\<rparr>)"
  using assms
  by (simp add: handle_data_A_def update_logical_clock_A_max Let_def print_A_def)

lemma handle_data_A_old:
  assumes "state_A (objects_A srv self) = RECEIVE"
    and "s < expected_sequence_number_A (objects_A srv self) - 1"
    and "in_range 32 (session_id_A (objects_A srv self))"
    and "in_range 64 (max (logical_clock_A srv) v + 2)"
  shows "handle_data_A self s data v srv =
     (case sessions_A srv (session_id_A (objects_A srv self)) of
        None \<Rightarrow> Some KeyError
      | Some _ \<Rightarrow> None,
      (assign_A self (\<lambda>m. m\<lparr>state_A := DONE, idle_timer_A := False\<rparr>) srv)
        \<lparr>logical_clock_A := max (logical_clock_A srv) v + 2,
         transport_A := transport_A srv @
           [(header_bytes 0xC461 1 GOODBYE 0 (session_id_A (objects_A srv self))
               (max (logical_clock_A srv) v + 2),
             client_address_A (objects_A srv self))],
         console_A := console_A srv @
           [Out_of_order (client_address_A (objects_A srv self)),
            Terminated (client_address_A (objects_A srv self))],
         sessions_A := (sessions_A srv)(session_id_A (objects_A srv self) := None)\<rparr>)"
proof -
  have clock: "in_range 64 (max (logical_clock_A srv) v + 1 + 1)"
    using assms(4) by (simp add: add.commute)
  show ?thesis
    using assms(1-3) clock
    apply (simp add: handle_data_A_def update_logical_clock_A_max Let_def
        goodbye_done_terminate_A_ends print_A_def)
    apply (simp add: assign_A_def)
    apply (rule UDPServerProtocol_A.equality; simp add: add.commute)
    done
qed

text \<open>A header with the wrong magic number or version ends the session, whatever its state.\<close>

lemma handle_message_A_invalid:
  assumes "struct_unpack (take 20 message) =
     Inr (magic, version, command, sequence_number, session_id, received_logical_clock)"
    and "magic \<noteq> 0xC461 \<or> version \<noteq> 1"
    and "in_range 32 (session_id_A (objects_A srv self))"
    and "in_range 64 (logical_clock_A srv + 1)"
  shows "handle_message_A self message srv =
     (case sessions_A srv (session_id_A (objects_A srv self)) of
        None \<Rightarrow> Some KeyError
      | Some _ \<Rightarrow> None,
      (assign_A self (\<lambda>m. m\<lparr>state_A := DONE, idle_timer_A := False\<rparr>) srv)
        \<lparr>logical_clock_A := logical_clock_A srv + 1,
         transport_A := transport_A srv @
           [(header_bytes 0xC461 1 GOODBYE 0 (session_id_A (objects_A srv self))
               (logical_clock_A srv + 1),
             client_address_A (objects_A srv self))],
         console_A := console_A srv @
           [Invalid_message (client_address_A (objects_A srv self)),
            Terminated (client_address_A (objects_A srv self))],
         sessions_A := (sessions_A srv)(session_id_A (objects_A srv self) := None)\<rparr>)"
  using assms
  apply (simp add: handle_message_A_def goodbye_done_terminate_A_ends print_A_def)
  apply (auto simp add: assign_A_def)
  done

text \<open>
  What the methods leave alone: none of them touches \<^verbatim>\<open>client_addresses\<close> or makes a
  session object, and the table \<^verbatim>\<open>sessions\<close> can only lose the key of the session.
  \<open>snd_then\<close> is the state after two steps of which the second runs only if the first
  raised nothing.
\<close>

lemma snd_then:
  "snd (case r of (Some e, s) \<Rightarrow> (Some e, s) | (None, s) \<Rightarrow> g s) =
     (if fst r = None then snd (g (snd r)) else snd r)"
  by (cases r; cases "fst r") auto

lemma frame_print_A:
  "client_addresses_A (print_A l srv) = client_addresses_A srv"
  "sessions_A (print_A l srv) = sessions_A srv"
  "allocated_A (print_A l srv) = allocated_A srv"
  "objects_A (print_A l srv) = objects_A srv"
  "logical_clock_A (print_A l srv) = logical_clock_A srv"
  "transport_A (print_A l srv) = transport_A srv"
  by (simp_all add: print_A_def)

lemma frame_assign_A:
  "client_addresses_A (assign_A self f srv) = client_addresses_A srv"
  "sessions_A (assign_A self f srv) = sessions_A srv"
  "allocated_A (assign_A self f srv) = allocated_A srv"
  "logical_clock_A (assign_A self f srv) = logical_clock_A srv"
  "transport_A (assign_A self f srv) = transport_A srv"
  "objects_A (assign_A self f srv) = (objects_A srv)(self := f (objects_A srv self))"
  by (simp_all add: assign_A_def)

lemma frame_timer_A:
  "client_addresses_A (cancel_timer_A self srv) = client_addresses_A srv"
  "sessions_A (cancel_timer_A self srv) = sessions_A srv"
  "allocated_A (cancel_timer_A self srv) = allocated_A srv"
  "logical_clock_A (cancel_timer_A self srv) = logical_clock_A srv"
  "transport_A (cancel_timer_A self srv) = transport_A srv"
  "client_addresses_A (set_timer_A self srv) = client_addresses_A srv"
  "sessions_A (set_timer_A self srv) = sessions_A srv"
  "allocated_A (set_timer_A self srv) = allocated_A srv"
  "logical_clock_A (set_timer_A self srv) = logical_clock_A srv"
  "transport_A (set_timer_A self srv) = transport_A srv"
  by (simp_all add: cancel_timer_A_def set_timer_A_def assign_A_def)

lemma frame_update_logical_clock_A:
  "client_addresses_A (update_logical_clock_A c srv) = client_addresses_A srv"
  "sessions_A (update_logical_clock_A c srv) = sessions_A srv"
  "allocated_A (update_logical_clock_A c srv) = allocated_A srv"
  "objects_A (update_logical_clock_A c srv) = objects_A srv"
  "transport_A (update_logical_clock_A c srv) = transport_A srv"
  by (simp_all add: update_logical_clock_A_def)

lemma frame_send_message_A:
  "client_addresses_A (snd (send_message_A self command sequence_number data srv)) =
     client_addresses_A srv"
  "sessions_A (snd (send_message_A self command sequence_number data srv)) = sessions_A srv"
  "objects_A (snd (send_message_A self command sequence_number data srv)) = objects_A srv"
  "allocated_A (snd (send_message_A self command sequence_number data srv)) = allocated_A srv"
  by (simp_all add: send_message_A_def update_logical_clock_A_def Let_def
      split: sum.splits option.splits)

lemma frame_terminate_A:
  "client_addresses_A (snd (terminate_A self srv)) = client_addresses_A srv"
  "sessions_A (snd (terminate_A self srv)) =
     (sessions_A srv)(session_id_A (objects_A srv self) := None)"
  "allocated_A (snd (terminate_A self srv)) = allocated_A srv"
  by (simp_all add: terminate_A_removes assign_A_def)

lemma frame_goodbye_done_terminate_A:
  "client_addresses_A (snd (goodbye_done_terminate_A self srv)) = client_addresses_A srv"
  "allocated_A (snd (goodbye_done_terminate_A self srv)) = allocated_A srv"
  "dom (sessions_A srv) \<subseteq> S \<Longrightarrow> dom (sessions_A (snd (goodbye_done_terminate_A self srv))) \<subseteq> S"
  by (auto simp add: goodbye_done_terminate_A_def snd_then frame_send_message_A
      frame_terminate_A frame_assign_A)

lemma frame_handle_hello_A:
  "client_addresses_A (snd (handle_hello_A self sequence_number srv)) = client_addresses_A srv"
  "allocated_A (snd (handle_hello_A self sequence_number srv)) = allocated_A srv"
  "dom (sessions_A srv) \<subseteq> S \<Longrightarrow>
     dom (sessions_A (snd (handle_hello_A self sequence_number srv))) \<subseteq> S"
  by (simp_all add: handle_hello_A_def snd_then frame_send_message_A
      frame_goodbye_done_terminate_A frame_assign_A frame_print_A frame_timer_A)

lemma frame_handle_data_A:
  "client_addresses_A (snd (handle_data_A self sequence_number data v srv)) = client_addresses_A srv"
  "allocated_A (snd (handle_data_A self sequence_number data v srv)) = allocated_A srv"
  "dom (sessions_A srv) \<subseteq> S \<Longrightarrow>
     dom (sessions_A (snd (handle_data_A self sequence_number data v srv))) \<subseteq> S"
  by (simp_all add: handle_data_A_def snd_then frame_send_message_A Let_def
      frame_goodbye_done_terminate_A frame_assign_A frame_print_A frame_timer_A
      frame_update_logical_clock_A)

lemma frame_handle_goodbye_A:
  "client_addresses_A (snd (handle_goodbye_A self srv)) = client_addresses_A srv"
  "allocated_A (snd (handle_goodbye_A self srv)) = allocated_A srv"
  "dom (sessions_A srv) \<subseteq> S \<Longrightarrow> dom (sessions_A (snd (handle_goodbye_A self srv))) \<subseteq> S"
  by (simp_all add: handle_goodbye_A_def frame_goodbye_done_terminate_A frame_print_A)

lemma frame_handle_message_A:
  "client_addresses_A (snd (handle_message_A self message srv)) = client_addresses_A srv"
  "allocated_A (snd (handle_message_A self message srv)) = allocated_A srv"
  "dom (sessions_A srv) \<subseteq> S \<Longrightarrow> dom (sessions_A (snd (handle_message_A self message srv))) \<subseteq> S"
  by (simp_all add: handle_message_A_def frame_goodbye_done_terminate_A frame_print_A
      frame_handle_hello_A frame_handle_data_A frame_handle_goodbye_A split: sum.splits)

text \<open>The expected sequence number changes only in \<^verbatim>\<open>handle_data\<close>.\<close>

lemma objects_terminate_A:
  "expected_sequence_number_A (objects_A (snd (terminate_A self srv)) r) =
     expected_sequence_number_A (objects_A srv r)"
  by (simp add: terminate_A_removes assign_A_def)

lemma expected_goodbye_done_terminate_A:
  "expected_sequence_number_A (objects_A (snd (goodbye_done_terminate_A self srv)) r) =
     expected_sequence_number_A (objects_A srv r)"
  by (simp add: goodbye_done_terminate_A_def snd_then frame_send_message_A objects_terminate_A
      frame_assign_A)

lemma expected_handle_hello_A:
  "expected_sequence_number_A (objects_A (snd (handle_hello_A self sequence_number srv)) r) =
     expected_sequence_number_A (objects_A srv r)"
  by (simp add: handle_hello_A_def snd_then frame_send_message_A
      expected_goodbye_done_terminate_A frame_print_A set_timer_A_def cancel_timer_A_def
      assign_A_def)

lemma expected_handle_message_A:
  assumes "state_A (objects_A srv self) \<noteq> RECEIVE"
  shows "expected_sequence_number_A (objects_A (snd (handle_message_A self message srv)) r) =
     expected_sequence_number_A (objects_A srv r)"
  using assms
  by (simp add: handle_message_A_def handle_data_A_def handle_goodbye_A_def
      expected_handle_hello_A expected_goodbye_done_terminate_A frame_print_A
      split: sum.splits)

text \<open>A HELLO for a session id that is not in the table.\<close>

lemma datagram_received_A_new_session:
  assumes "struct_unpack (take 20 data) =
     Inr (magic, version, HELLO, sequence_number, session_id, received_logical_clock)"
    and "sessions_A srv session_id = None"
  shows "datagram_received_A data addr srv =
     handle_message_A (allocated_A srv) data
       (srv\<lparr>objects_A := (objects_A srv)
               (allocated_A srv := ServerSession_init_A addr session_id sequence_number),
            allocated_A := Suc (allocated_A srv),
            sessions_A := (sessions_A srv)(session_id \<mapsto> allocated_A srv),
            client_addresses_A := (client_addresses_A srv)(session_id \<mapsto> addr)\<rparr>)"
  using assms(2) struct_unpack_slices [OF assms(1)]
  by (simp add: datagram_received_A_def Let_def)

lemma datagram_received_A_expected:
  assumes "struct_unpack (take 20 data) =
     Inr (magic, version, HELLO, sequence_number, session_id, received_logical_clock)"
    and "sessions_A srv session_id = None"
  shows "expected_sequence_number_A
           (objects_A (snd (datagram_received_A data addr srv)) (allocated_A srv)) =
         sequence_number + 1"
  by (simp add: datagram_received_A_new_session [OF assms] expected_handle_message_A
      ServerSession_init_A_def)

lemma handle_hello_A_opens:
  assumes "state_A (objects_A srv self) = WAIT_FOR_HELLO"
    and "in_range 32 sequence_number"
    and "in_range 32 (session_id_A (objects_A srv self))"
    and "in_range 64 (logical_clock_A srv + 1)"
  shows "handle_hello_A self sequence_number srv =
     (None,
      (assign_A self (\<lambda>m. m\<lparr>state_A := RECEIVE, idle_timer_A := True\<rparr>) srv)
        \<lparr>logical_clock_A := logical_clock_A srv + 1,
         transport_A := transport_A srv @
           [(header_bytes 0xC461 1 HELLO sequence_number (session_id_A (objects_A srv self))
               (logical_clock_A srv + 1),
             client_address_A (objects_A srv self))],
         console_A := console_A srv @
           [Received_HELLO (client_address_A (objects_A srv self))
              (session_id_A (objects_A srv self))]\<rparr>)"
  using assms
  by (simp add: handle_hello_A_def send_message_A_sends commands_in_range print_A_def
      set_timer_A_def cancel_timer_A_def assign_A_def)

lemma handle_message_A_hello:
  assumes "struct_unpack (take 20 message) =
     Inr (0xC461, 1, HELLO, sequence_number, session_id_A (objects_A srv self),
          received_logical_clock)"
  shows "handle_message_A self message srv = handle_hello_A self sequence_number srv"
  using assms by (simp add: handle_message_A_def)

lemma datagram_received_A_opens:
  assumes "struct_unpack (take 20 data) =
     Inr (0xC461, 1, HELLO, sequence_number, session_id, received_logical_clock)"
    and "sessions_A srv session_id = None"
    and "in_range 64 (logical_clock_A srv + 1)"
  shows "sessions_A (snd (datagram_received_A data addr srv)) session_id = Some (allocated_A srv)"
    and "client_addresses_A (snd (datagram_received_A data addr srv)) session_id = Some addr"
    and "state_A (objects_A (snd (datagram_received_A data addr srv)) (allocated_A srv)) = RECEIVE"
proof -
  let ?srv1 = "srv\<lparr>objects_A := (objects_A srv)
               (allocated_A srv := ServerSession_init_A addr session_id sequence_number),
            allocated_A := Suc (allocated_A srv),
            sessions_A := (sessions_A srv)(session_id \<mapsto> allocated_A srv),
            client_addresses_A := (client_addresses_A srv)(session_id \<mapsto> addr)\<rparr>"
  note r = struct_unpack_in_range [OF assms(1)]
  have "datagram_received_A data addr srv = handle_message_A (allocated_A srv) data ?srv1"
    using assms(1,2) by (rule datagram_received_A_new_session)
  also have "\<dots> = handle_hello_A (allocated_A srv) sequence_number ?srv1"
    using assms(1) by (simp add: handle_message_A_hello ServerSession_init_A_def)
  finally have eq: "datagram_received_A data addr srv =
      handle_hello_A (allocated_A srv) sequence_number ?srv1" .
  have opens: "handle_hello_A (allocated_A srv) sequence_number ?srv1 =
      (None,
      (assign_A (allocated_A srv) (\<lambda>m. m\<lparr>state_A := RECEIVE, idle_timer_A := True\<rparr>) ?srv1)
        \<lparr>logical_clock_A := logical_clock_A ?srv1 + 1,
         transport_A := transport_A ?srv1 @
           [(header_bytes 0xC461 1 HELLO sequence_number
               (session_id_A (objects_A ?srv1 (allocated_A srv)))
               (logical_clock_A ?srv1 + 1),
             client_address_A (objects_A ?srv1 (allocated_A srv)))],
         console_A := console_A ?srv1 @
           [Received_HELLO (client_address_A (objects_A ?srv1 (allocated_A srv)))
              (session_id_A (objects_A ?srv1 (allocated_A srv)))]\<rparr>)"
    using r(4,5) assms(3)
    by (intro handle_hello_A_opens) (simp_all add: ServerSession_init_A_def)
  show "sessions_A (snd (datagram_received_A data addr srv)) session_id = Some (allocated_A srv)"
    unfolding eq opens by (simp add: assign_A_def)
  show "client_addresses_A (snd (datagram_received_A data addr srv)) session_id = Some addr"
    unfolding eq opens by (simp add: assign_A_def)
  show "state_A (objects_A (snd (datagram_received_A data addr srv)) (allocated_A srv)) = RECEIVE"
    unfolding eq opens by (simp add: assign_A_def)
qed

text \<open>A datagram for a session id that is bound to another address is only logged.\<close>

lemma datagram_received_A_collision:
  assumes "struct_unpack (take 20 data) =
     Inr (magic, version, command, sequence_number, session_id, received_logical_clock)"
    and "sessions_A srv session_id = Some session"
    and "client_addresses_A srv session_id = Some bound"
    and "addr \<noteq> bound"
  shows "datagram_received_A data addr srv =
     (None, srv\<lparr>console_A := console_A srv @ [Ignoring_client addr session_id]\<rparr>)"
  using assms(2-4) struct_unpack_slices [OF assms(1)]
  by (simp add: datagram_received_A_def print_A_def)

text \<open>The two tables under the timer and under \<^verbatim>\<open>datagram_received\<close>.\<close>

lemma session_timeout_A_frame:
  "client_addresses_A (snd (session_timeout_A self srv)) = client_addresses_A srv"
  "allocated_A (snd (session_timeout_A self srv)) = allocated_A srv"
  "dom (sessions_A srv) \<subseteq> S \<Longrightarrow> dom (sessions_A (snd (session_timeout_A self srv))) \<subseteq> S"
  by (simp_all add: session_timeout_A_def frame_goodbye_done_terminate_A frame_print_A)

lemma datagram_received_A_client_addresses:
  "client_addresses_A (snd (datagram_received_A data addr srv)) = client_addresses_A srv \<or>
   (\<exists>session_id. sessions_A srv session_id = None \<and>
      client_addresses_A (snd (datagram_received_A data addr srv)) =
        (client_addresses_A srv)(session_id \<mapsto> addr))"
  by (auto simp add: datagram_received_A_def Let_def frame_print_A frame_handle_message_A
      split: sum.splits option.splits)

lemma datagram_received_A_invariant:
  assumes "dom (sessions_A srv) \<subseteq> dom (client_addresses_A srv)"
  shows "dom (sessions_A (snd (datagram_received_A data addr srv))) \<subseteq>
     dom (client_addresses_A (snd (datagram_received_A data addr srv)))"
proof (cases "struct_unpack_I (take 4 (drop 8 data))")
  case (Inl e)
  then show ?thesis
    using assms by (simp add: datagram_received_A_def frame_print_A)
next
  case (Inr session_id)
  note sid = this
  show ?thesis
  proof (cases "sessions_A srv session_id")
    case None
    have "dom ((sessions_A srv)(session_id \<mapsto> allocated_A srv)) \<subseteq>
        dom ((client_addresses_A srv)(session_id \<mapsto> addr))"
      using assms by auto
    then show ?thesis
      using assms sid None
      by (simp add: datagram_received_A_def Let_def frame_print_A frame_handle_message_A
          split: sum.splits)
  next
    case (Some session)
    then show ?thesis
      using assms sid
      by (simp add: datagram_received_A_def Let_def frame_print_A frame_handle_message_A
          split: sum.splits option.splits)
  qed
qed

text \<open>
  Ticks against datagrams: while the fields fit their formats, every method of the
  session ticks the clock as often as it sends, except that \<^verbatim>\<open>handle_data\<close> in state
  \<^verbatim>\<open>RECEIVE\<close> first merges the received clock.
\<close>

lemma unsent_A_simps:
  "unsent_A (print_A l srv) = unsent_A srv"
  "unsent_A (assign_A self f srv) = unsent_A srv"
  "unsent_A (cancel_timer_A self srv) = unsent_A srv"
  "unsent_A (set_timer_A self srv) = unsent_A srv"
  "unsent_A (snd (terminate_A self srv)) = unsent_A srv"
  "unsent_A (srv\<lparr>console_A := c\<rparr>) = unsent_A srv"
  by (simp_all add: unsent_A_def frame_print_A frame_assign_A frame_timer_A terminate_A_removes)

lemma unsent_update_logical_clock_A:
  "unsent_A (update_logical_clock_A (Some v) srv) =
     max (logical_clock_A srv) v + 1 - int (length (transport_A srv))"
  by (simp add: unsent_A_def update_logical_clock_A_max)

lemma unsent_send_message_A:
  assumes "in_range 8 command" "in_range 32 sequence_number"
    "in_range 32 (session_id_A (objects_A srv self))" "in_range 64 (logical_clock_A srv + 1)"
  shows "unsent_A (snd (send_message_A self command sequence_number None srv)) = unsent_A srv"
  using assms by (simp add: send_message_A_sends unsent_A_def)

lemma unsent_goodbye_done_terminate_A:
  assumes "in_range 32 (session_id_A (objects_A srv self))"
    "in_range 64 (logical_clock_A srv + 1)"
  shows "unsent_A (snd (goodbye_done_terminate_A self srv)) = unsent_A srv"
  using assms by (simp add: goodbye_done_terminate_A_ends unsent_A_def frame_assign_A)

lemma unsent_handle_hello_A:
  assumes "in_range 32 sequence_number"
    "in_range 32 (session_id_A (objects_A srv self))" "in_range 64 (logical_clock_A srv + 1)"
  shows "unsent_A (snd (handle_hello_A self sequence_number srv)) = unsent_A srv"
  using assms
  by (simp add: handle_hello_A_def snd_then unsent_A_simps unsent_send_message_A
      unsent_goodbye_done_terminate_A commands_in_range frame_print_A)

lemma unsent_handle_goodbye_A:
  assumes "in_range 32 (session_id_A (objects_A srv self))" "in_range 64 (logical_clock_A srv + 1)"
  shows "unsent_A (snd (handle_goodbye_A self srv)) = unsent_A srv"
  using assms
  by (simp add: handle_goodbye_A_def unsent_A_simps unsent_goodbye_done_terminate_A frame_print_A)

lemma unsent_handle_data_A:
  assumes "in_range 32 sequence_number"
    "in_range 32 (session_id_A (objects_A srv self))"
    "in_range 64 (max (logical_clock_A srv) v + 2)"
  shows "unsent_A (snd (handle_data_A self sequence_number data v srv)) =
     (if state_A (objects_A srv self) = RECEIVE
      then max (logical_clock_A srv) v + 1 - int (length (transport_A srv))
      else unsent_A srv)"
proof -
  have clock: "in_range 64 (max (logical_clock_A srv) v + 1 + 1)"
    using assms(3) by (simp add: add.commute)
  note rules = handle_data_A_def Let_def snd_then unsent_A_simps unsent_send_message_A
    unsent_goodbye_done_terminate_A commands_in_range frame_print_A frame_assign_A
    update_logical_clock_A_max unsent_A_def [of "srv\<lparr>logical_clock_A := x\<rparr>" for x]
  show ?thesis
  proof (cases "sequence_number = expected_sequence_number_A (objects_A srv self)")
    case True
    then have "in_range 32 (expected_sequence_number_A (objects_A srv self))"
      using assms(1) by simp
    then show ?thesis
      using assms(2) clock True by (simp add: rules)
  next
    case False
    then show ?thesis
      using assms(1,2) clock by (simp add: rules)
  qed
qed

lemma unsent_handle_message_A:
  assumes "struct_unpack (take 20 message) =
     Inr (magic, version, command, sequence_number, session_id, v)"
    and "in_range 32 (session_id_A (objects_A srv self))"
    and "0 \<le> logical_clock_A srv"
    and "max (logical_clock_A srv) v + 2 < 2 ^ 64"
  shows "unsent_A (snd (handle_message_A self message srv)) =
     (if magic = 0xC461 \<and> version = 1 \<and> session_id = session_id_A (objects_A srv self) \<and>
         command = DATA \<and> state_A (objects_A srv self) = RECEIVE
      then max (logical_clock_A srv) v + 1 - int (length (transport_A srv))
      else unsent_A srv)"
proof -
  note r = struct_unpack_in_range [OF assms(1)]
  have c: "in_range 64 (logical_clock_A srv + 1)" "in_range 64 (max (logical_clock_A srv) v + 2)"
    using assms(3,4) by (simp_all add: in_range_def max_def split: if_splits)
  show ?thesis
    using assms(1,2) r(4) c
    by (simp add: handle_message_A_def unsent_A_simps unsent_goodbye_done_terminate_A
        unsent_handle_hello_A unsent_handle_goodbye_A unsent_handle_data_A frame_print_A
        HELLO_def DATA_def GOODBYE_def)
qed

text \<open>
  \<^verbatim>\<open>handle_data\<close> in state \<^verbatim>\<open>RECEIVE\<close> merges the received clock before anything else,
  and nothing lowers the clock afterwards, whether the method raises or not.
\<close>

lemma clock_send_message_A:
  "logical_clock_A (snd (send_message_A self command sequence_number data srv)) =
     logical_clock_A srv + 1"
  by (simp add: send_message_A_def update_logical_clock_A_def Let_def
      split: sum.splits option.splits)

lemma clock_goodbye_done_terminate_A:
  "logical_clock_A srv \<le> logical_clock_A (snd (goodbye_done_terminate_A self srv))"
  by (simp add: goodbye_done_terminate_A_def snd_then clock_send_message_A
      terminate_A_removes frame_assign_A)

lemma handle_data_A_merges:
  assumes "state_A (objects_A srv self) = RECEIVE"
  shows "max (logical_clock_A srv) v + 1 \<le>
     logical_clock_A (snd (handle_data_A self sequence_number data v srv))"
proof -
  have g: "\<And>s. max (logical_clock_A srv) v + 1 \<le> logical_clock_A s \<Longrightarrow>
      max (logical_clock_A srv) v + 1 \<le> logical_clock_A (snd (goodbye_done_terminate_A self s))"
    using clock_goodbye_done_terminate_A by (rule order_trans [rotated])
  show ?thesis
    using assms
    by (simp add: handle_data_A_def Let_def snd_then clock_send_message_A g
        frame_print_A frame_assign_A frame_timer_A update_logical_clock_A_max)
qed

text \<open>The idle timer of \<^verbatim>\<open>A/server.py\<close> ends the session and deletes it from the table.\<close>

lemma session_timeout_A_ends:
  assumes "in_range 32 (session_id_A (objects_A srv self))"
    "in_range 64 (logical_clock_A srv + 1)"
  shows "session_timeout_A self srv =
     (case sessions_A srv (session_id_A (objects_A srv self)) of
        None \<Rightarrow> Some KeyError
      | Some _ \<Rightarrow> None,
      (assign_A self (\<lambda>s. s\<lparr>state_A := DONE, idle_timer_A := False\<rparr>) srv)
        \<lparr>logical_clock_A := logical_clock_A srv + 1,
         transport_A := transport_A srv @
           [(header_bytes 0xC461 1 GOODBYE 0 (session_id_A (objects_A srv self))
               (logical_clock_A srv + 1),
             client_address_A (objects_A srv self))],
         console_A := console_A srv @
           [Session_timeout (client_address_A (objects_A srv self)),
            Terminated (client_address_A (objects_A srv self))],
         sessions_A := (sessions_A srv)(session_id_A (objects_A srv self) := None)\<rparr>)"
  using assms
  by (simp add: session_timeout_A_def goodbye_done_terminate_A_ends print_A_def assign_A_def)

section \<open>Facts about B/server.py\<close>

lemma send_message_B_sends:
  assumes "in_range 8 command" "in_range 32 seq_num"
    "in_range 32 (session_id_B (objects_B srv self))" "in_range 64 (logical_clock_B srv + 1)"
  shows "send_message_B self command seq_num None srv =
     (None, srv\<lparr>logical_clock_B := logical_clock_B srv + 1,
                server_socket_B := server_socket_B srv @
                  [(header_bytes 0xC461 1 command seq_num
                      (session_id_B (objects_B srv self)) (logical_clock_B srv + 1),
                    client_address_B (objects_B srv self))]\<rparr>)"
  using assms
  by (simp add: send_message_B_def update_logical_clock_B_def struct_pack_Inr
      constants_in_range Let_def)

lemma handle_data_B_expected:
  assumes "expected_sequence_B (objects_B srv self) = s"
    and "decodes p"
    and "in_range 32 s"
    and "in_range 32 (session_id_B (objects_B srv self))"
    and "in_range 64 (logical_clock_B srv + 1)"
  shows "handle_data_B self s (Some p) v srv =
     (None,
      (assign_B self (\<lambda>m. m\<lparr>expected_sequence_B := s + 1\<rparr>) srv)
        \<lparr>logical_clock_B := logical_clock_B srv + 1,
         server_socket_B := server_socket_B srv @
           [(header_bytes 0xC461 1 ALIVE s (session_id_B (objects_B srv self))
               (logical_clock_B srv + 1),
             client_address_B (objects_B srv self))],
         console_B := console_B srv @
           [Blank_B, Clock_value_B v, Received_DATA_B (session_id_B (objects_B srv self)) p]\<rparr>)"
  using assms
  by (simp add: handle_data_B_def Let_def send_message_B_sends commands_in_range
      assign_B_def print_B_def)

text \<open>
  After a gap the first branch stores \<open>s + 1\<close> and the statements it falls through to
  add one more: the session then expects \<open>s + 2\<close>.
\<close>

lemma handle_data_B_gap:
  assumes "expected_sequence_B (objects_B srv self) < s"
    and "decodes p"
    and "in_range 32 s"
    and "in_range 32 (session_id_B (objects_B srv self))"
    and "in_range 64 (logical_clock_B srv + 1)"
  shows "handle_data_B self s (Some p) v srv =
     (None,
      (assign_B self (\<lambda>m. m\<lparr>expected_sequence_B := s + 2\<rparr>) srv)
        \<lparr>logical_clock_B := logical_clock_B srv + 1,
         server_socket_B := server_socket_B srv @
           [(header_bytes 0xC461 1 ALIVE s (session_id_B (objects_B srv self))
               (logical_clock_B srv + 1),
             client_address_B (objects_B srv self))],
         console_B := console_B srv @
           [Blank_B, Clock_value_B v,
            Lost_packets_B (session_id_B (objects_B srv self))
              (expected_sequence_B (objects_B srv self)) s,
            Received_DATA_B (session_id_B (objects_B srv self)) p]\<rparr>)"
  using assms
  apply (simp add: handle_data_B_def Let_def send_message_B_sends commands_in_range
      assign_B_def print_B_def)
  apply (rule UDPServer_B.equality; simp add: add.commute)
  done

lemma handle_data_B_old:
  assumes "s < expected_sequence_B (objects_B srv self)"
  shows "handle_data_B self s payload v srv =
     (None,
      srv\<lparr>console_B := console_B srv @
            [Blank_B, Clock_value_B v, Duplicate_packet_B (session_id_B (objects_B srv self))]\<rparr>)"
  using assms
  by (simp add: handle_data_B_def Let_def print_B_def)

text \<open>\<^verbatim>\<open>process_message\<close> only prints that it discards such a datagram.\<close>

lemma process_message_B_invalid:
  assumes "struct_unpack (take 20 message) =
     Inr (magic, version, command, seq_num, session_id, received_logical_clock)"
    and "magic \<noteq> 0xC461 \<or> version \<noteq> 1"
  shows "process_message_B self message srv =
     (None,
      (assign_B self (\<lambda>m. m\<lparr>timer_B := Some Started\<rparr>) srv)
        \<lparr>console_B := console_B srv @ [Invalid_packet_B (client_address_B (objects_B srv self))]\<rparr>)"
  using assms
  by (auto simp add: process_message_B_def Let_def set_timer_B_def cancel_timer_B_def assign_B_def
      print_B_def)

text \<open>What the handlers leave alone, and a HELLO for a session id that is not in the table.\<close>

lemma frame_print_B:
  "sessions_B (print_B l srv) = sessions_B srv"
  "allocated_B (print_B l srv) = allocated_B srv"
  "objects_B (print_B l srv) = objects_B srv"
  "logical_clock_B (print_B l srv) = logical_clock_B srv"
  "server_socket_B (print_B l srv) = server_socket_B srv"
  by (simp_all add: print_B_def)

lemma frame_send_message_B:
  "sessions_B (snd (send_message_B self command seq_num data srv)) = sessions_B srv"
  "objects_B (snd (send_message_B self command seq_num data srv)) = objects_B srv"
  "allocated_B (snd (send_message_B self command seq_num data srv)) = allocated_B srv"
  by (simp_all add: send_message_B_def update_logical_clock_B_def Let_def
      split: sum.splits option.splits)

lemma expected_handle_hello_B:
  "expected_sequence_B (objects_B (snd (handle_hello_B self seq_num srv)) r) =
     expected_sequence_B (objects_B srv r)"
  by (simp add: handle_hello_B_def frame_send_message_B frame_print_B)

lemma snd_catch_B:
  "snd (case r of (Some StructError, s) \<Rightarrow> (None, print_B l s) | r' \<Rightarrow> r') =
     (if fst r = Some StructError then print_B l (snd r) else snd r)"
  by (cases r; cases "fst r"; simp split: error.splits option.splits)

lemma handle_client_B_new_session:
  assumes "struct_unpack (take 20 message) =
     Inr (magic, version, HELLO, seq_num, session_id, received_clock_value)"
    and "sessions_B srv session_id = None"
  shows "expected_sequence_B
           (objects_B (snd (handle_client_B message client_address srv)) (allocated_B srv)) = 0"
  using assms
  by (simp add: handle_client_B_def Let_def update_logical_clock_B_def snd_then
      process_message_B_def snd_catch_B frame_print_B expected_handle_hello_B
      set_timer_B_def cancel_timer_B_def start_B_def assign_B_def ServerSession_init_B_def
      split: if_splits)

lemma active_handle_hello_B:
  "active_B (objects_B (snd (handle_hello_B self seq_num srv)) r) = active_B (objects_B srv r)"
  by (simp add: handle_hello_B_def frame_send_message_B frame_print_B)

lemma sessions_handle_hello_B:
  "sessions_B (snd (handle_hello_B self seq_num srv)) = sessions_B srv"
  "allocated_B (snd (handle_hello_B self seq_num srv)) = allocated_B srv"
  by (simp_all add: handle_hello_B_def frame_send_message_B frame_print_B)

lemma fst_then:
  "fst (case r of (Some e, s) \<Rightarrow> (Some e, s) | (None, s) \<Rightarrow> g s) =
     (if fst r = None then fst (g (snd r)) else fst r)"
  by (cases r; cases "fst r") auto

lemma handle_client_B_new_session_table:
  assumes "struct_unpack (take 20 message) =
     Inr (magic, version, HELLO, seq_num, session_id, received_clock_value)"
    and "sessions_B srv session_id = None"
  shows "sessions_B (snd (handle_client_B message client_address srv)) session_id =
     Some (allocated_B srv)"
  using assms
  by (simp add: handle_client_B_def Let_def update_logical_clock_B_def snd_then
      process_message_B_def snd_catch_B frame_print_B active_handle_hello_B
      sessions_handle_hello_B
      set_timer_B_def cancel_timer_B_def start_B_def assign_B_def ServerSession_init_B_def
      split: if_splits)

text \<open>The rejection of a datagram whose session id another client holds.\<close>

lemma update_logical_clock_B_max:
  "update_logical_clock_B (Some v) srv =
     srv\<lparr>logical_clock_B := max (logical_clock_B srv) v + 1\<rparr>"
  by (simp add: update_logical_clock_B_def max_def)

lemma handle_client_B_collision:
  assumes "struct_unpack (take 20 message) =
     Inr (magic, version, command, seq_num, session_id, received_clock_value)"
    and "sessions_B srv session_id = Some session"
    and "client_address_B (objects_B srv session) \<noteq> client_address"
  shows "handle_client_B message client_address srv =
     (None,
      srv\<lparr>logical_clock_B := max (logical_clock_B srv) received_clock_value + 1 + 1,
          console_B := console_B srv @
            [In_use_B session_id (client_address_B (objects_B srv session)) client_address],
          server_socket_B := server_socket_B srv @
            [(encode (''Session ID '' @ hex session_id @
                      '' is already in use. Connection rejected.''),
              client_address)]\<rparr>)"
  using assms
  by (simp add: handle_client_B_def Let_def update_logical_clock_B_max
      update_logical_clock_B_def send_rejection_B_def print_B_def)

text \<open>
  Ticks against datagrams: while the fields fit their formats, every method of the
  session ticks the clock as often as it sends.
\<close>

lemma frame_timer_B:
  "sessions_B (set_timer_B self srv) = sessions_B srv"
  "sessions_B (cancel_timer_B self srv) = sessions_B srv"
  "logical_clock_B (set_timer_B self srv) = logical_clock_B srv"
  "logical_clock_B (cancel_timer_B self srv) = logical_clock_B srv"
  "server_socket_B (set_timer_B self srv) = server_socket_B srv"
  "server_socket_B (cancel_timer_B self srv) = server_socket_B srv"
  "session_id_B (objects_B (set_timer_B self srv) r) = session_id_B (objects_B srv r)"
  "session_id_B (objects_B (cancel_timer_B self srv) r) = session_id_B (objects_B srv r)"
  "expected_sequence_B (objects_B (set_timer_B self srv) r) = expected_sequence_B (objects_B srv r)"
  "expected_sequence_B (objects_B (cancel_timer_B self srv) r) =
     expected_sequence_B (objects_B srv r)"
  "active_B (objects_B (set_timer_B self srv) r) = active_B (objects_B srv r)"
  "active_B (objects_B (cancel_timer_B self srv) r) = active_B (objects_B srv r)"
  by (simp_all add: set_timer_B_def cancel_timer_B_def assign_B_def)

lemma frame_assign_B:
  "sessions_B (assign_B self f srv) = sessions_B srv"
  "allocated_B (assign_B self f srv) = allocated_B srv"
  "logical_clock_B (assign_B self f srv) = logical_clock_B srv"
  "server_socket_B (assign_B self f srv) = server_socket_B srv"
  "objects_B (assign_B self f srv) = (objects_B srv)(self := f (objects_B srv self))"
  by (simp_all add: assign_B_def)

lemma unsent_B_simps:
  "unsent_B (print_B l srv) = unsent_B srv"
  "unsent_B (assign_B self f srv) = unsent_B srv"
  "unsent_B (cancel_timer_B self srv) = unsent_B srv"
  "unsent_B (set_timer_B self srv) = unsent_B srv"
  by (simp_all add: unsent_B_def print_B_def assign_B_def frame_timer_B)

lemma unsent_send_message_B:
  assumes "in_range 8 command" "in_range 32 seq_num"
    "in_range 32 (session_id_B (objects_B srv self))" "in_range 64 (logical_clock_B srv + 1)"
  shows "unsent_B (snd (send_message_B self command seq_num None srv)) = unsent_B srv"
  using assms by (simp add: send_message_B_sends unsent_B_def)

lemma unsent_handle_hello_B:
  assumes "in_range 32 seq_num"
    "in_range 32 (session_id_B (objects_B srv self))" "in_range 64 (logical_clock_B srv + 1)"
  shows "unsent_B (snd (handle_hello_B self seq_num srv)) = unsent_B srv"
  using assms
  by (simp add: handle_hello_B_def unsent_B_simps unsent_send_message_B commands_in_range
      frame_print_B)

lemma unsent_handle_goodbye_B:
  assumes "in_range 32 (expected_sequence_B (objects_B srv self))"
    "in_range 32 (session_id_B (objects_B srv self))" "in_range 64 (logical_clock_B srv + 1)"
  shows "unsent_B (snd (handle_goodbye_B self srv)) = unsent_B srv"
  using assms
  by (simp add: handle_goodbye_B_def send_goodbye_B_def snd_then unsent_B_simps
      unsent_send_message_B commands_in_range frame_print_B)

lemma unsent_handle_data_B:
  assumes "in_range 32 seq_num"
    "in_range 32 (session_id_B (objects_B srv self))" "in_range 64 (logical_clock_B srv + 1)"
  shows "unsent_B (snd (handle_data_B self seq_num payload v srv)) = unsent_B srv"
  using assms
  by (simp add: handle_data_B_def Let_def unsent_B_simps unsent_send_message_B
      commands_in_range frame_print_B frame_assign_B split: option.splits)

lemma unsent_process_message_B:
  assumes "struct_unpack (take 20 message) =
     Inr (magic, version, command, seq_num, session_id, v)"
    and "in_range 32 (expected_sequence_B (objects_B srv self))"
    and "in_range 32 (session_id_B (objects_B srv self))"
    and "in_range 64 (logical_clock_B srv + 1)"
  shows "unsent_B (snd (process_message_B self message srv)) = unsent_B srv"
  using assms(1-4) struct_unpack_in_range(4) [OF assms(1)]
  by (simp add: process_message_B_def Let_def snd_catch_B unsent_B_simps frame_timer_B
      unsent_handle_hello_B unsent_handle_data_B unsent_handle_goodbye_B frame_print_B)

text \<open>
  \<^verbatim>\<open>handle_client\<close> merges the received clock once, and then ticks once for every
  datagram it sends.
\<close>

lemma unsent_handle_client_B:
  assumes "struct_unpack (take 20 message) =
     Inr (magic, version, command, seq_num, session_id, v)"
    and "0 \<le> logical_clock_B srv"
    and "max (logical_clock_B srv) v + 2 < 2 ^ 64"
    and "\<And>session. sessions_B srv session_id = Some session \<Longrightarrow>
           in_range 32 (session_id_B (objects_B srv session)) \<and>
           in_range 32 (expected_sequence_B (objects_B srv session))"
  shows "unsent_B (snd (handle_client_B message client_address srv)) =
     max (logical_clock_B srv) v + 1 - int (length (server_socket_B srv))"
proof -
  note r = struct_unpack_in_range [OF assms(1)]
  have c: "in_range 64 (max (logical_clock_B srv) v + 1 + 1)"
    using assms(2,3) by (simp add: in_range_def max_def split: if_splits)
  have u: "\<And>s f. unsent_B (s\<lparr>sessions_B := f\<rparr>) = unsent_B s"
    by (simp add: unsent_B_def)
  let ?srv1 = "srv\<lparr>logical_clock_B := max (logical_clock_B srv) v + 1\<rparr>"
  have m: "unsent_B ?srv1 = max (logical_clock_B srv) v + 1 - int (length (server_socket_B srv))"
    by (simp add: unsent_B_def)
  show ?thesis
  proof (cases "sessions_B srv session_id")
    case None
    let ?new = "start_B (allocated_B srv)
        ((print_B (New_session_B session_id client_address) ?srv1)
           \<lparr>objects_B := (objects_B ?srv1)
              (allocated_B srv := ServerSession_init_B client_address session_id),
            allocated_B := Suc (allocated_B srv),
            sessions_B := (sessions_B ?srv1)(session_id \<mapsto> allocated_B srv)\<rparr>)"
    have p: "unsent_B (snd (process_message_B (allocated_B srv) message ?new)) = unsent_B ?new"
      using assms(1) r(5) c
      by (intro unsent_process_message_B [OF assms(1)])
        (simp_all add: start_B_def frame_timer_B print_B_def ServerSession_init_B_def in_range_def)
    have n: "unsent_B ?new = unsent_B ?srv1"
      by (simp add: start_B_def unsent_B_def print_B_def frame_timer_B)
    show ?thesis
      using assms(1) None p n m
      by (simp add: handle_client_B_def Let_def update_logical_clock_B_max snd_then u
          unsent_B_simps)
  next
    case (Some session)
    note a = assms(4) [OF Some]
    have p: "unsent_B (snd (process_message_B session message ?srv1)) = unsent_B ?srv1"
      using a c by (intro unsent_process_message_B [OF assms(1)]) simp_all
    show ?thesis
    proof (cases "client_address_B (objects_B srv session) = client_address")
      case True
      then show ?thesis
        using assms(1) Some p m
        by (simp add: handle_client_B_def Let_def update_logical_clock_B_max snd_then u)
    next
      case False
      then show ?thesis
        using handle_client_B_collision [OF assms(1) Some, of client_address]
        by (simp add: unsent_B_def)
    qed
  qed
qed

text \<open>
  A DATA of exactly 20 bytes has no payload: \<^verbatim>\<open>process_message\<close> hands \<^verbatim>\<open>None\<close> to
  \<^verbatim>\<open>handle_data\<close>, where \<^verbatim>\<open>payload.decode()\<close> raises \<^verbatim>\<open>AttributeError\<close> before the
  ALIVE, unless the sequence number is an old one.
\<close>

lemma handle_data_B_no_payload:
  assumes "expected_sequence_B (objects_B srv self) \<le> s"
  shows "fst (handle_data_B self s None v srv) = Some AttributeError"
    and "server_socket_B (snd (handle_data_B self s None v srv)) = server_socket_B srv"
  using assms
  by (simp_all add: handle_data_B_def Let_def print_B_def assign_B_def)


lemma process_message_B_no_payload:
  assumes "struct_unpack message =
     Inr (0xC461, 1, DATA, seq_num, session_id, received_logical_clock)"
    and "expected_sequence_B (objects_B srv self) \<le> seq_num"
  shows "fst (process_message_B self message srv) = Some AttributeError"
    and "server_socket_B (snd (process_message_B self message srv)) = server_socket_B srv"
proof -
  have len: "length message = 20"
    using assms(1) by (simp add: struct_unpack_def split: if_splits)
  let ?srv1 = "set_timer_B self (cancel_timer_B self srv)"
  have e: "expected_sequence_B (objects_B ?srv1 self) \<le> seq_num"
    using assms(2) by (simp add: set_timer_B_def cancel_timer_B_def assign_B_def)
  have s: "server_socket_B ?srv1 = server_socket_B srv"
    by (simp add: frame_timer_B)
  obtain srv2 where h: "handle_data_B self seq_num None received_logical_clock ?srv1 =
      (Some AttributeError, srv2)"
    using handle_data_B_no_payload(1) [OF e, of received_logical_clock]
    by (cases "handle_data_B self seq_num None received_logical_clock ?srv1") simp
  have t: "server_socket_B srv2 = server_socket_B srv"
    using handle_data_B_no_payload(2) [OF e, of received_logical_clock] h s by simp
  show "fst (process_message_B self message srv) = Some AttributeError"
    using assms(1) len h
    by (simp add: process_message_B_def Let_def DATA_def HELLO_def)
  show "server_socket_B (snd (process_message_B self message srv)) = server_socket_B srv"
    using assms(1) len h t
    by (simp add: process_message_B_def Let_def DATA_def HELLO_def)
qed

text \<open>The idle timer of \<^verbatim>\<open>B/server.py\<close> sends a GOODBYE and clears \<^verbatim>\<open>active\<close>.\<close>

lemma issue_timeout_B_sends:
  assumes "in_range 32 (expected_sequence_B (objects_B srv self))"
    and "in_range 32 (session_id_B (objects_B srv self))"
    and "in_range 64 (logical_clock_B srv + 1)"
  shows "issue_timeout_B self srv =
     (None,
      (assign_B self (\<lambda>m. m\<lparr>active_B := False\<rparr>) srv)
        \<lparr>logical_clock_B := logical_clock_B srv + 1,
         server_socket_B := server_socket_B srv @
           [(header_bytes 0xC461 1 GOODBYE (expected_sequence_B (objects_B srv self))
               (session_id_B (objects_B srv self)) (logical_clock_B srv + 1),
             client_address_B (objects_B srv self))],
         console_B := console_B srv @ [Timeout_B (session_id_B (objects_B srv self))]\<rparr>)"
  using assms
  by (simp add: issue_timeout_B_def send_goodbye_B_def send_message_B_sends commands_in_range
      print_B_def assign_B_def)

section \<open>Facts about the clients\<close>

lemma send_message_cA_sends:
  assumes "in_range 16 (magic_number_cA cl)" "in_range 8 (version_cA cl)" "in_range 8 command"
    "in_range 32 (sequence_number_cA cl)" "in_range 32 (session_id_cA cl)"
    "in_range 64 (logical_clock_cA cl + 1)"
  shows "fst (send_message_cA command data cl) = None"
    and "logical_clock_cA (snd (send_message_cA command data cl)) = logical_clock_cA cl + 1"
    and "client_socket_cA (snd (send_message_cA command data cl)) = client_socket_cA cl @
       [header_bytes (magic_number_cA cl) (version_cA cl) command (sequence_number_cA cl)
          (session_id_cA cl) (logical_clock_cA cl + 1) @
        (case data of None \<Rightarrow> [] | Some d \<Rightarrow> d)]"
  using assms
  by (simp_all add: send_message_cA_def update_logical_clock_cA_def struct_pack_Inr Let_def
      split: option.splits)

lemma send_message_cB_sends:
  assumes "in_range 8 command" "in_range 32 (sequence_number_cB cl)"
    "in_range 32 (session_id_cB cl)" "in_range 64 (logical_clock_cB cl)"
  shows "fst (send_message_cB command data cl) = None"
    and "logical_clock_cB (snd (send_message_cB command data cl)) = logical_clock_cB cl + 1"
    and "transport_cB (snd (send_message_cB command data cl)) = transport_cB cl @
       [header_bytes 0xC461 1 command (sequence_number_cB cl) (session_id_cB cl)
          (logical_clock_cB cl) @
        (case data of None \<Rightarrow> [] | Some d \<Rightarrow> d)]"
  using assms
  by (simp_all add: send_message_cB_def update_logical_clock_cB_def struct_pack_Inr Let_def
      constants_in_range split: option.splits)

lemma handle_response_cB_merges:
  assumes "struct_unpack (take 20 message) =
     Inr (magic, version, command, sequence_number, session_id, v)"
  shows "logical_clock_cB (snd (handle_response_cB message cl)) =
     max (logical_clock_cB cl) v + 1"
  using assms
  by (simp add: handle_response_cB_def update_logical_clock_cB_def Let_def max_def)

lemma receive_message_cA_merges:
  assumes "struct_unpack (take 20 message) =
     Inr (magic, version, command, sequence_number, session_id, v)"
    and "drop 20 message = [] \<or> decodes (drop 20 message)"
  shows "fst (receive_message_cA message cl) = None"
    and "logical_clock_cA (snd (receive_message_cA message cl)) =
       max (logical_clock_cA cl) v + 1"
  using assms
  by (auto simp add: receive_message_cA_def decode_message_cA_def cancel_timer_cA_def
      update_logical_clock_cA_def Let_def max_def)

section \<open>Facts about the clocks\<close>

text \<open>
  Sending: in all four programs a \<^verbatim>\<open>send_message\<close> whose fields fit their formats ticks
  the clock exactly once and sends one datagram; its header carries the clock after the
  tick in \<^verbatim>\<open>A/server.py\<close>, \<^verbatim>\<open>B/server.py\<close> and \<^verbatim>\<open>A/client.py\<close>, and the clock before
  the tick in \<^verbatim>\<open>B/client.py\<close>. Receiving a datagram of at least 20 bytes that carries
  the clock \<open>v\<close>: \<^verbatim>\<open>handle_response\<close> of \<^verbatim>\<open>B/client.py\<close> and a pass of
  \<^verbatim>\<open>receive_message\<close> of \<^verbatim>\<open>A/client.py\<close> (payload empty or decodable) leave the clock at
  \<open>max local v + 1\<close>; \<^verbatim>\<open>handle_client\<close> of \<^verbatim>\<open>B/server.py\<close> leaves it at
  \<open>max local v + 1\<close> plus one for every datagram it sends in answer. In
  \<^verbatim>\<open>A/server.py\<close> the received clock reaches \<^verbatim>\<open>update_logical_clock\<close> through
  \<^verbatim>\<open>handle_data\<close> alone, so \<^verbatim>\<open>handle_message\<close> counts it for a valid DATA in state
  \<^verbatim>\<open>RECEIVE\<close> and for no other datagram.
\<close>

lemma ticks_and_merges:
  "(in_range 8 command \<and> in_range 32 sequence_number \<and>
    in_range 32 (session_id_A (objects_A srv_A self_A)) \<and>
    in_range 64 (logical_clock_A srv_A + 1) \<longrightarrow>
    (let r = send_message_A self_A command sequence_number None srv_A;
         header = header_bytes 0xC461 1 command sequence_number
                    (session_id_A (objects_A srv_A self_A)) (logical_clock_A (snd r))
     in fst r = None \<and>
        logical_clock_A (snd r) = logical_clock_A srv_A + 1 \<and>
        transport_A (snd r) = transport_A srv_A @
          [(header, client_address_A (objects_A srv_A self_A))] \<and>
        struct_unpack header =
          Inr (0xC461, 1, command, sequence_number, session_id_A (objects_A srv_A self_A),
               logical_clock_A (snd r)))) \<and>
   (in_range 8 command \<and> in_range 32 sequence_number \<and>
    in_range 32 (session_id_B (objects_B srv_B self_B)) \<and>
    in_range 64 (logical_clock_B srv_B + 1) \<longrightarrow>
    (let r = send_message_B self_B command sequence_number None srv_B;
         header = header_bytes 0xC461 1 command sequence_number
                    (session_id_B (objects_B srv_B self_B)) (logical_clock_B (snd r))
     in fst r = None \<and>
        logical_clock_B (snd r) = logical_clock_B srv_B + 1 \<and>
        server_socket_B (snd r) = server_socket_B srv_B @
          [(header, client_address_B (objects_B srv_B self_B))] \<and>
        struct_unpack header =
          Inr (0xC461, 1, command, sequence_number, session_id_B (objects_B srv_B self_B),
               logical_clock_B (snd r)))) \<and>
   (in_range 16 (magic_number_cA cl_A) \<and> in_range 8 (version_cA cl_A) \<and> in_range 8 command \<and>
    in_range 32 (sequence_number_cA cl_A) \<and> in_range 32 (session_id_cA cl_A) \<and>
    in_range 64 (logical_clock_cA cl_A + 1) \<longrightarrow>
    (let r = send_message_cA command data cl_A;
         header = header_bytes (magic_number_cA cl_A) (version_cA cl_A) command
                    (sequence_number_cA cl_A) (session_id_cA cl_A) (logical_clock_cA (snd r))
     in fst r = None \<and>
        logical_clock_cA (snd r) = logical_clock_cA cl_A + 1 \<and>
        client_socket_cA (snd r) = client_socket_cA cl_A @
          [header @ (case data of None \<Rightarrow> [] | Some d \<Rightarrow> d)] \<and>
        struct_unpack header =
          Inr (magic_number_cA cl_A, version_cA cl_A, command, sequence_number_cA cl_A,
               session_id_cA cl_A, logical_clock_cA (snd r)))) \<and>
   (in_range 8 command \<and> in_range 32 (sequence_number_cB cl_B) \<and>
    in_range 32 (session_id_cB cl_B) \<and> in_range 64 (logical_clock_cB cl_B) \<longrightarrow>
    (let r = send_message_cB command data cl_B;
         header = header_bytes 0xC461 1 command (sequence_number_cB cl_B)
                    (session_id_cB cl_B) (logical_clock_cB cl_B)
     in fst r = None \<and>
        logical_clock_cB (snd r) = logical_clock_cB cl_B + 1 \<and>
        transport_cB (snd r) = transport_cB cl_B @
          [header @ (case data of None \<Rightarrow> [] | Some d \<Rightarrow> d)] \<and>
        struct_unpack header =
          Inr (0xC461, 1, command, sequence_number_cB cl_B, session_id_cB cl_B,
               logical_clock_cB cl_B))) \<and>
   (struct_unpack (take 20 message) =
      Inr (magic, version, received_command, received_sequence_number, session_id, v) \<longrightarrow>
    logical_clock_cB (snd (handle_response_cB message cl_B)) =
      max (logical_clock_cB cl_B) v + 1 \<and>
    ((drop 20 message = [] \<or> decodes (drop 20 message)) \<longrightarrow>
       fst (receive_message_cA message cl_A) = None \<and>
       logical_clock_cA (snd (receive_message_cA message cl_A)) =
         max (logical_clock_cA cl_A) v + 1) \<and>
    (0 \<le> logical_clock_B srv_B \<and> max (logical_clock_B srv_B) v + 2 < 2 ^ 64 \<and>
     (\<forall>session. sessions_B srv_B session_id = Some session \<longrightarrow>
        in_range 32 (session_id_B (objects_B srv_B session)) \<and>
        in_range 32 (expected_sequence_B (objects_B srv_B session))) \<longrightarrow>
     logical_clock_B (snd (handle_client_B message addr srv_B)) =
       max (logical_clock_B srv_B) v + 1 +
       (int (length (server_socket_B (snd (handle_client_B message addr srv_B)))) -
        int (length (server_socket_B srv_B)))) \<and>
    (in_range 32 (session_id_A (objects_A srv_A self_A)) \<and>
     0 \<le> logical_clock_A srv_A \<and> max (logical_clock_A srv_A) v + 2 < 2 ^ 64 \<longrightarrow>
     logical_clock_A (snd (handle_message_A self_A message srv_A)) =
       (if magic = 0xC461 \<and> version = 1 \<and>
           session_id = session_id_A (objects_A srv_A self_A) \<and>
           received_command = DATA \<and> state_A (objects_A srv_A self_A) = RECEIVE
        then max (logical_clock_A srv_A) v + 1
        else logical_clock_A srv_A) +
       (int (length (transport_A (snd (handle_message_A self_A message srv_A)))) -
        int (length (transport_A srv_A)))))"
proof -
  have send_A: "in_range 8 command \<and> in_range 32 sequence_number \<and>
    in_range 32 (session_id_A (objects_A srv_A self_A)) \<and>
    in_range 64 (logical_clock_A srv_A + 1) \<longrightarrow>
    (let r = send_message_A self_A command sequence_number None srv_A;
         header = header_bytes 0xC461 1 command sequence_number
                    (session_id_A (objects_A srv_A self_A)) (logical_clock_A (snd r))
     in fst r = None \<and>
        logical_clock_A (snd r) = logical_clock_A srv_A + 1 \<and>
        transport_A (snd r) = transport_A srv_A @
          [(header, client_address_A (objects_A srv_A self_A))] \<and>
        struct_unpack header =
          Inr (0xC461, 1, command, sequence_number, session_id_A (objects_A srv_A self_A),
               logical_clock_A (snd r)))"
    by (simp add: send_message_A_sends Let_def struct_unpack_header_bytes constants_in_range)
  have send_B: "in_range 8 command \<and> in_range 32 sequence_number \<and>
    in_range 32 (session_id_B (objects_B srv_B self_B)) \<and>
    in_range 64 (logical_clock_B srv_B + 1) \<longrightarrow>
    (let r = send_message_B self_B command sequence_number None srv_B;
         header = header_bytes 0xC461 1 command sequence_number
                    (session_id_B (objects_B srv_B self_B)) (logical_clock_B (snd r))
     in fst r = None \<and>
        logical_clock_B (snd r) = logical_clock_B srv_B + 1 \<and>
        server_socket_B (snd r) = server_socket_B srv_B @
          [(header, client_address_B (objects_B srv_B self_B))] \<and>
        struct_unpack header =
          Inr (0xC461, 1, command, sequence_number, session_id_B (objects_B srv_B self_B),
               logical_clock_B (snd r)))"
    by (simp add: send_message_B_sends Let_def struct_unpack_header_bytes constants_in_range)
  have send_cA: "in_range 16 (magic_number_cA cl_A) \<and> in_range 8 (version_cA cl_A) \<and>
    in_range 8 command \<and>
    in_range 32 (sequence_number_cA cl_A) \<and> in_range 32 (session_id_cA cl_A) \<and>
    in_range 64 (logical_clock_cA cl_A + 1) \<longrightarrow>
    (let r = send_message_cA command data cl_A;
         header = header_bytes (magic_number_cA cl_A) (version_cA cl_A) command
                    (sequence_number_cA cl_A) (session_id_cA cl_A) (logical_clock_cA (snd r))
     in fst r = None \<and>
        logical_clock_cA (snd r) = logical_clock_cA cl_A + 1 \<and>
        client_socket_cA (snd r) = client_socket_cA cl_A @
          [header @ (case data of None \<Rightarrow> [] | Some d \<Rightarrow> d)] \<and>
        struct_unpack header =
          Inr (magic_number_cA cl_A, version_cA cl_A, command, sequence_number_cA cl_A,
               session_id_cA cl_A, logical_clock_cA (snd r)))"
    by (simp add: send_message_cA_sends Let_def struct_unpack_header_bytes)
  have send_cB: "in_range 8 command \<and> in_range 32 (sequence_number_cB cl_B) \<and>
    in_range 32 (session_id_cB cl_B) \<and> in_range 64 (logical_clock_cB cl_B) \<longrightarrow>
    (let r = send_message_cB command data cl_B;
         header = header_bytes 0xC461 1 command (sequence_number_cB cl_B)
                    (session_id_cB cl_B) (logical_clock_cB cl_B)
     in fst r = None \<and>
        logical_clock_cB (snd r) = logical_clock_cB cl_B + 1 \<and>
        transport_cB (snd r) = transport_cB cl_B @
          [header @ (case data of None \<Rightarrow> [] | Some d \<Rightarrow> d)] \<and>
        struct_unpack header =
          Inr (0xC461, 1, command, sequence_number_cB cl_B, session_id_cB cl_B,
               logical_clock_cB cl_B))"
    by (simp add: send_message_cB_sends Let_def struct_unpack_header_bytes constants_in_range)
  have receive: "struct_unpack (take 20 message) =
      Inr (magic, version, received_command, received_sequence_number, session_id, v) \<longrightarrow>
    logical_clock_cB (snd (handle_response_cB message cl_B)) =
      max (logical_clock_cB cl_B) v + 1 \<and>
    ((drop 20 message = [] \<or> decodes (drop 20 message)) \<longrightarrow>
       fst (receive_message_cA message cl_A) = None \<and>
       logical_clock_cA (snd (receive_message_cA message cl_A)) =
         max (logical_clock_cA cl_A) v + 1) \<and>
    (0 \<le> logical_clock_B srv_B \<and> max (logical_clock_B srv_B) v + 2 < 2 ^ 64 \<and>
     (\<forall>session. sessions_B srv_B session_id = Some session \<longrightarrow>
        in_range 32 (session_id_B (objects_B srv_B session)) \<and>
        in_range 32 (expected_sequence_B (objects_B srv_B session))) \<longrightarrow>
     logical_clock_B (snd (handle_client_B message addr srv_B)) =
       max (logical_clock_B srv_B) v + 1 +
       (int (length (server_socket_B (snd (handle_client_B message addr srv_B)))) -
        int (length (server_socket_B srv_B)))) \<and>
    (in_range 32 (session_id_A (objects_A srv_A self_A)) \<and>
     0 \<le> logical_clock_A srv_A \<and> max (logical_clock_A srv_A) v + 2 < 2 ^ 64 \<longrightarrow>
     logical_clock_A (snd (handle_message_A self_A message srv_A)) =
       (if magic = 0xC461 \<and> version = 1 \<and>
           session_id = session_id_A (objects_A srv_A self_A) \<and>
           received_command = DATA \<and> state_A (objects_A srv_A self_A) = RECEIVE
        then max (logical_clock_A srv_A) v + 1
        else logical_clock_A srv_A) +
       (int (length (transport_A (snd (handle_message_A self_A message srv_A)))) -
        int (length (transport_A srv_A))))"
  proof (intro impI conjI)
    assume u: "struct_unpack (take 20 message) =
      Inr (magic, version, received_command, received_sequence_number, session_id, v)"
    show "logical_clock_cB (snd (handle_response_cB message cl_B)) =
        max (logical_clock_cB cl_B) v + 1"
      using u by (rule handle_response_cB_merges)
    {
      assume p: "drop 20 message = [] \<or> decodes (drop 20 message)"
      show "fst (receive_message_cA message cl_A) = None"
        using u p by (rule receive_message_cA_merges)
      show "logical_clock_cA (snd (receive_message_cA message cl_A)) =
          max (logical_clock_cA cl_A) v + 1"
        using u p by (rule receive_message_cA_merges)
    }
    {
      assume b: "0 \<le> logical_clock_B srv_B \<and> max (logical_clock_B srv_B) v + 2 < 2 ^ 64 \<and>
       (\<forall>session. sessions_B srv_B session_id = Some session \<longrightarrow>
          in_range 32 (session_id_B (objects_B srv_B session)) \<and>
          in_range 32 (expected_sequence_B (objects_B srv_B session)))"
      have "unsent_B (snd (handle_client_B message addr srv_B)) =
          max (logical_clock_B srv_B) v + 1 - int (length (server_socket_B srv_B))"
        using b by (intro unsent_handle_client_B [OF u]) simp_all
      then show "logical_clock_B (snd (handle_client_B message addr srv_B)) =
         max (logical_clock_B srv_B) v + 1 +
         (int (length (server_socket_B (snd (handle_client_B message addr srv_B)))) -
          int (length (server_socket_B srv_B)))"
        by (simp add: unsent_B_def)
    }
    {
      assume a: "in_range 32 (session_id_A (objects_A srv_A self_A)) \<and>
         0 \<le> logical_clock_A srv_A \<and> max (logical_clock_A srv_A) v + 2 < 2 ^ 64"
      have "unsent_A (snd (handle_message_A self_A message srv_A)) =
         (if magic = 0xC461 \<and> version = 1 \<and>
             session_id = session_id_A (objects_A srv_A self_A) \<and>
             received_command = DATA \<and> state_A (objects_A srv_A self_A) = RECEIVE
          then max (logical_clock_A srv_A) v + 1 - int (length (transport_A srv_A))
          else unsent_A srv_A)"
        using a by (intro unsent_handle_message_A [OF u]) simp_all
      then show "logical_clock_A (snd (handle_message_A self_A message srv_A)) =
         (if magic = 0xC461 \<and> version = 1 \<and>
             session_id = session_id_A (objects_A srv_A self_A) \<and>
             received_command = DATA \<and> state_A (objects_A srv_A self_A) = RECEIVE
          then max (logical_clock_A srv_A) v + 1
          else logical_clock_A srv_A) +
         (int (length (transport_A (snd (handle_message_A self_A message srv_A)))) -
          int (length (transport_A srv_A)))"
        by (cases "magic = 0xC461 \<and> version = 1 \<and>
             session_id = session_id_A (objects_A srv_A self_A) \<and>
             received_command = DATA \<and> state_A (objects_A srv_A self_A) = RECEIVE")
          (auto simp add: unsent_A_def)
    }
  qed
  from send_A send_B send_cA send_cB receive show ?thesis
    by (intro conjI)
qed

section \<open>Facts about the examples\<close>

lemma example_bad_magic_unpacks:
  "struct_unpack (take 20 example_bad_magic) = Inr (0, 1, DATA, 5, 7, 3)"
  using struct_unpack_header_bytes [of 0 1 DATA 5 7 3]
  by (simp add: example_bad_magic_def length_header_bytes in_range_def DATA_def)

lemma example_data_unpacks:
  "struct_unpack (take 20 example_data) = Inr (0xC461, 1, DATA, 5, 7, 3)"
  using struct_unpack_header_bytes [of "0xC461" 1 DATA 5 7 3]
  by (simp add: example_data_def length_header_bytes in_range_def DATA_def)

lemma example_data_1_unpacks:
  "struct_unpack (take 20 example_data_1) = Inr (0xC461, 1, DATA, 1, 7, 3)"
  by (simp add: example_data_1_def struct_unpack_def from_bytes_be_def DATA_def)

text \<open>
  The shortened HELLO has the 12 bytes that \<^verbatim>\<open>datagram_received\<close> reads, so a session is
  made for it; \<^verbatim>\<open>handle_message\<close> then fails to unpack it, and the session stays in
  the table in state \<^verbatim>\<open>WAIT_FOR_HELLO\<close>.
\<close>

lemma short_hello_leaves_waiting:
  "datagram_received_A example_short_hello (''10.0.0.1'', 4000)
     (UDPServerProtocol_init_A example_session_A) =
   (Some StructError,
    (UDPServerProtocol_init_A example_session_A)
      \<lparr>objects_A := (\<lambda>_. example_session_A)
         (0 := ServerSession_init_A (''10.0.0.1'', 4000) 7 0),
       allocated_A := 1,
       sessions_A := [7 \<mapsto> 0],
       client_addresses_A := [7 \<mapsto> (''10.0.0.1'', 4000)]\<rparr>)"
  by (simp add: datagram_received_A_def example_short_hello_def struct_unpack_I_def
      struct_unpack_B_def from_bytes_be_def UDPServerProtocol_init_A_def HELLO_def
      handle_message_A_def struct_unpack_def)

lemma example_waiting_A_eq:
  "example_waiting_A =
    (UDPServerProtocol_init_A example_session_A)
      \<lparr>objects_A := (\<lambda>_. example_session_A)
         (0 := ServerSession_init_A (''10.0.0.1'', 4000) 7 0),
       allocated_A := 1,
       sessions_A := [7 \<mapsto> 0],
       client_addresses_A := [7 \<mapsto> (''10.0.0.1'', 4000)]\<rparr>"
  by (simp add: example_waiting_A_def short_hello_leaves_waiting)

lemma example_hello_unpacks:
  "struct_unpack (take 20 example_hello) = Inr (0xC461, 1, HELLO, 5, 7, 0)"
  using struct_unpack_header_bytes [of "0xC461" 1 HELLO 5 7 0]
  by (simp add: example_hello_def length_header_bytes in_range_def HELLO_def)

text \<open>
  A session of \<^verbatim>\<open>B/server.py\<close> whose timer has fired is still in the table: the next
  DATA of its client is answered with an ALIVE and starts a new timer, and only then is
  the entry deleted.
\<close>

lemma timed_out_session_still_answers:
  "server_socket_B
     (snd (handle_client_B example_data (''10.0.0.1'', 4000) (snd (issue_timeout_B 0 example_B)))) =
     [(header_bytes 0xC461 1 GOODBYE 5 7 11, (''10.0.0.1'', 4000)),
      (header_bytes 0xC461 1 ALIVE 5 7 13, (''10.0.0.1'', 4000))] \<and>
   sessions_B
     (snd (handle_client_B example_data (''10.0.0.1'', 4000) (snd (issue_timeout_B 0 example_B))))
     7 = None \<and>
   timer_B (objects_B
     (snd (handle_client_B example_data (''10.0.0.1'', 4000) (snd (issue_timeout_B 0 example_B))))
     0) = Some Started"
proof -
  have h: "in_range 32 (expected_sequence_B (objects_B example_B 0))"
    "in_range 32 (session_id_B (objects_B example_B 0))"
    "in_range 64 (logical_clock_B example_B + 1)"
    by (simp_all add: example_B_def example_session_B_def in_range_def)
  note t = issue_timeout_B_sends [OF h]
  have p: "length example_data > 20" "drop 20 example_data = [104, 105]"
    by (simp_all add: example_data_def length_header_bytes)
  show ?thesis
    using example_data_unpacks p
    apply (simp add: t handle_client_B_def Let_def update_logical_clock_B_max)
    by (simp add: example_B_def example_session_B_def assign_B_def process_message_B_def Let_def
        set_timer_B_def cancel_timer_B_def DATA_def HELLO_def handle_data_B_expected
        in_range_def)
qed

lemma example_hello_0_unpacks:
  "struct_unpack (take 20 example_hello_0) = Inr (0xC461, 1, HELLO, 0, 7, 0)"
  using struct_unpack_header_bytes [of "0xC461" 1 HELLO 0 7 0]
  by (simp add: example_hello_0_def length_header_bytes in_range_def HELLO_def)

lemma example_data_2_unpacks:
  "struct_unpack (take 20 example_data_2) = Inr (0xC461, 1, DATA, 2, 7, 5)"
  using struct_unpack_header_bytes [of "0xC461" 1 DATA 2 7 5]
  by (simp add: example_data_2_def length_header_bytes in_range_def DATA_def)

lemma example_hello_100_unpacks:
  "struct_unpack (take 20 example_hello_100) = Inr (0xC461, 1, HELLO, 0, 7, 100)"
  using struct_unpack_header_bytes [of "0xC461" 1 HELLO 0 7 100]
  by (simp add: example_hello_100_def length_header_bytes in_range_def HELLO_def)

lemma example_goodbye_100_unpacks:
  "struct_unpack (take 20 example_goodbye_100) = Inr (0xC461, 1, GOODBYE, 6, 7, 100)"
  using struct_unpack_header_bytes [of "0xC461" 1 GOODBYE 6 7 100]
  by (simp add: example_goodbye_100_def length_header_bytes in_range_def GOODBYE_def)

lemma example_data_100_unpacks:
  "struct_unpack (take 20 example_data_100) = Inr (0xC461, 1, DATA, 5, 7, 100)"
  using struct_unpack_header_bytes [of "0xC461" 1 DATA 5 7 100]
  by (simp add: example_data_100_def length_header_bytes in_range_def DATA_def)

text \<open>
  A client that numbers its HELLO 0 and its DATA 1 and 2, as both clients of the
  repository do, and loses nothing. The session of \<^verbatim>\<open>B/server.py\<close> starts expecting 0:
  it reports DATA 1 as a loss, then expects 3 and discards DATA 2 as a duplicate, with no
  ALIVE. The session of \<^verbatim>\<open>A/server.py\<close> starts expecting 1 and answers both.
\<close>

lemma lossless_hello_B:
  "handle_client_B example_hello_0 (''10.0.0.1'', 4000) (UDPServer_init_B example_session_B) =
     (None,
      \<lparr>sessions_B = [7 \<mapsto> 0],
       logical_clock_B = 2,
       server_socket_B = [(header_bytes 0xC461 1 HELLO 0 7 2, (''10.0.0.1'', 4000))],
       console_B = [New_session_B 7 (''10.0.0.1'', 4000), Received_HELLO_B 7],
       objects_B = (\<lambda>_. example_session_B)
         (0 := \<lparr>client_address_B = (''10.0.0.1'', 4000), session_id_B = 7,
                 expected_sequence_B = 0, active_B = True, timer_B = Some Started\<rparr>),
       allocated_B = 1\<rparr>)"
  using example_hello_0_unpacks
  by (simp add: handle_client_B_def Let_def update_logical_clock_B_max UDPServer_init_B_def
      print_B_def start_B_def set_timer_B_def cancel_timer_B_def assign_B_def
      ServerSession_init_B_def process_message_B_def handle_hello_B_def send_message_B_sends
      commands_in_range in_range_def HELLO_def)


lemma lossless_data_1_B:
  "handle_client_B example_data_1 (''10.0.0.1'', 4000)
     (snd (handle_client_B example_hello_0 (''10.0.0.1'', 4000)
             (UDPServer_init_B example_session_B))) =
     (None,
      \<lparr>sessions_B = [7 \<mapsto> 0],
       logical_clock_B = 5,
       server_socket_B = [(header_bytes 0xC461 1 HELLO 0 7 2, (''10.0.0.1'', 4000)),
                          (header_bytes 0xC461 1 ALIVE 1 7 5, (''10.0.0.1'', 4000))],
       console_B = [New_session_B 7 (''10.0.0.1'', 4000), Received_HELLO_B 7,
                    Blank_B, Clock_value_B 3, Lost_packets_B 7 0 1,
                    Received_DATA_B 7 [104, 105]],
       objects_B = (\<lambda>_. example_session_B)
         (0 := \<lparr>client_address_B = (''10.0.0.1'', 4000), session_id_B = 7,
                 expected_sequence_B = 3, active_B = True, timer_B = Some Started\<rparr>),
       allocated_B = 1\<rparr>)"
proof -
  have p: "length example_data_1 > 20" "drop 20 example_data_1 = [104, 105]"
    by (simp_all add: example_data_1_def)
  show ?thesis
    using example_data_1_unpacks p
    apply (subst lossless_hello_B)
    by (simp add: handle_client_B_def Let_def update_logical_clock_B_max
        set_timer_B_def cancel_timer_B_def assign_B_def process_message_B_def
        handle_data_B_gap in_range_def DATA_def HELLO_def)
qed

lemma lossless_data_2_B:
  "handle_client_B example_data_2 (''10.0.0.1'', 4000)
     (snd (handle_client_B example_data_1 (''10.0.0.1'', 4000)
        (snd (handle_client_B example_hello_0 (''10.0.0.1'', 4000)
                (UDPServer_init_B example_session_B))))) =
     (None,
      \<lparr>sessions_B = [7 \<mapsto> 0],
       logical_clock_B = 6,
       server_socket_B = [(header_bytes 0xC461 1 HELLO 0 7 2, (''10.0.0.1'', 4000)),
                          (header_bytes 0xC461 1 ALIVE 1 7 5, (''10.0.0.1'', 4000))],
       console_B = [New_session_B 7 (''10.0.0.1'', 4000), Received_HELLO_B 7,
                    Blank_B, Clock_value_B 3, Lost_packets_B 7 0 1,
                    Received_DATA_B 7 [104, 105],
                    Blank_B, Clock_value_B 5, Duplicate_packet_B 7],
       objects_B = (\<lambda>_. example_session_B)
         (0 := \<lparr>client_address_B = (''10.0.0.1'', 4000), session_id_B = 7,
                 expected_sequence_B = 3, active_B = True, timer_B = Some Started\<rparr>),
       allocated_B = 1\<rparr>)"
proof -
  have p: "length example_data_2 > 20" "drop 20 example_data_2 = [104, 105]"
    by (simp_all add: example_data_2_def length_header_bytes)
  show ?thesis
    using example_data_2_unpacks p
    apply (subst lossless_data_1_B)
    by (simp add: handle_client_B_def Let_def update_logical_clock_B_max
        set_timer_B_def cancel_timer_B_def assign_B_def process_message_B_def
        handle_data_B_old DATA_def HELLO_def)
qed

lemma lossless_hello_A:
  "datagram_received_A example_hello_0 (''10.0.0.1'', 4000)
     (UDPServerProtocol_init_A example_session_A) =
     (None,
      \<lparr>sessions_A = [7 \<mapsto> 0],
       client_addresses_A = [7 \<mapsto> (''10.0.0.1'', 4000)],
       logical_clock_A = 1,
       transport_A = [(header_bytes 0xC461 1 HELLO 0 7 1, (''10.0.0.1'', 4000))],
       console_A = [Received_HELLO (''10.0.0.1'', 4000) 7],
       objects_A = (\<lambda>_. example_session_A)
         (0 := \<lparr>client_address_A = (''10.0.0.1'', 4000), session_id_A = 7,
                 expected_sequence_number_A = 1, state_A = RECEIVE, idle_timer_A = True\<rparr>),
       allocated_A = 1\<rparr>)"
proof -
  let ?init = "UDPServerProtocol_init_A example_session_A"
  let ?srv1 = "?init\<lparr>objects_A := (objects_A ?init)
               (allocated_A ?init := ServerSession_init_A (''10.0.0.1'', 4000) 7 0),
            allocated_A := Suc (allocated_A ?init),
            sessions_A := (sessions_A ?init)(7 \<mapsto> allocated_A ?init),
            client_addresses_A := (client_addresses_A ?init)(7 \<mapsto> (''10.0.0.1'', 4000))\<rparr>"
  have n: "sessions_A ?init 7 = None"
    by (simp add: UDPServerProtocol_init_A_def)
  have "datagram_received_A example_hello_0 (''10.0.0.1'', 4000) ?init =
      handle_message_A (allocated_A ?init) example_hello_0 ?srv1"
    using example_hello_0_unpacks n by (rule datagram_received_A_new_session)
  also have "\<dots> = handle_hello_A (allocated_A ?init) 0 ?srv1"
    using example_hello_0_unpacks by (simp add: handle_message_A_hello ServerSession_init_A_def)
  finally show ?thesis
    by (simp add: handle_hello_A_opens ServerSession_init_A_def UDPServerProtocol_init_A_def
        in_range_def assign_A_def)
qed


lemma lossless_data_1_A:
  "datagram_received_A example_data_1 (''10.0.0.1'', 4000)
     (snd (datagram_received_A example_hello_0 (''10.0.0.1'', 4000)
             (UDPServerProtocol_init_A example_session_A))) =
     (None,
      \<lparr>sessions_A = [7 \<mapsto> 0],
       client_addresses_A = [7 \<mapsto> (''10.0.0.1'', 4000)],
       logical_clock_A = 5,
       transport_A = [(header_bytes 0xC461 1 HELLO 0 7 1, (''10.0.0.1'', 4000)),
                      (header_bytes 0xC461 1 ALIVE 1 7 5, (''10.0.0.1'', 4000))],
       console_A = [Received_HELLO (''10.0.0.1'', 4000) 7,
                    Received_DATA (''10.0.0.1'', 4000) [104, 105]],
       objects_A = (\<lambda>_. example_session_A)
         (0 := \<lparr>client_address_A = (''10.0.0.1'', 4000), session_id_A = 7,
                 expected_sequence_number_A = 2, state_A = RECEIVE, idle_timer_A = True\<rparr>),
       allocated_A = 1\<rparr>)"
proof -
  have p: "drop 20 example_data_1 = [104, 105]"
    by (simp add: example_data_1_def)
  show ?thesis
    using example_data_1_unpacks p struct_unpack_slices [OF example_data_1_unpacks]
    apply (subst lossless_hello_A)
    by (simp add: datagram_received_A_def handle_message_A_def DATA_def HELLO_def
        handle_data_A_expected in_range_def assign_A_def)
qed

lemma lossless_data_2_A:
  "datagram_received_A example_data_2 (''10.0.0.1'', 4000)
     (snd (datagram_received_A example_data_1 (''10.0.0.1'', 4000)
        (snd (datagram_received_A example_hello_0 (''10.0.0.1'', 4000)
                (UDPServerProtocol_init_A example_session_A))))) =
     (None,
      \<lparr>sessions_A = [7 \<mapsto> 0],
       client_addresses_A = [7 \<mapsto> (''10.0.0.1'', 4000)],
       logical_clock_A = 7,
       transport_A = [(header_bytes 0xC461 1 HELLO 0 7 1, (''10.0.0.1'', 4000)),
                      (header_bytes 0xC461 1 ALIVE 1 7 5, (''10.0.0.1'', 4000)),
                      (header_bytes 0xC461 1 ALIVE 2 7 7, (''10.0.0.1'', 4000))],
       console_A = [Received_HELLO (''10.0.0.1'', 4000) 7,
                    Received_DATA (''10.0.0.1'', 4000) [104, 105],
                    Received_DATA (''10.0.0.1'', 4000) [104, 105]],
       objects_A = (\<lambda>_. example_session_A)
         (0 := \<lparr>client_address_A = (''10.0.0.1'', 4000), session_id_A = 7,
                 expected_sequence_number_A = 3, state_A = RECEIVE, idle_timer_A = True\<rparr>),
       allocated_A = 1\<rparr>)"
proof -
  have p: "drop 20 example_data_2 = [104, 105]"
    by (simp add: example_data_2_def length_header_bytes)
  show ?thesis
    using example_data_2_unpacks p struct_unpack_slices [OF example_data_2_unpacks]
    apply (subst lossless_data_1_A)
    by (simp add: datagram_received_A_def handle_message_A_def DATA_def HELLO_def
        handle_data_A_expected in_range_def assign_A_def)
qed

text \<open>
  \<^verbatim>\<open>B/server.py\<close> answers a first HELLO stamped 100 with a HELLO stamped 102: the merge
  at the top of \<^verbatim>\<open>handle_client\<close> brings the clock to 101, and the send ticks once.
\<close>

lemma hello_100_B:
  "server_socket_B (snd (handle_client_B example_hello_100 (''10.0.0.1'', 4000)
                           (UDPServer_init_B example_session_B))) =
     [(header_bytes 0xC461 1 HELLO 0 7 102, (''10.0.0.1'', 4000))]"
  using example_hello_100_unpacks
  by (simp add: handle_client_B_def Let_def update_logical_clock_B_max UDPServer_init_B_def
      print_B_def start_B_def set_timer_B_def cancel_timer_B_def assign_B_def
      ServerSession_init_B_def process_message_B_def handle_hello_B_def send_message_B_sends
      commands_in_range in_range_def HELLO_def)

section \<open>The claims\<close>

text \<open>
  C9. For header fields in the range of their \<^verbatim>\<open>struct\<close> format and any payload, the
  encoding (\<^verbatim>\<open>struct.pack\<close> followed by \<^verbatim>\<open>header + data\<close>, as in \<^verbatim>\<open>send_message\<close>) does
  not fail and yields exactly \<open>20 + length payload\<close> bytes, and the decoding of
  \<^verbatim>\<open>handle_message\<close> (\<^verbatim>\<open>struct.unpack\<close> on \<^verbatim>\<open>message[:20]\<close>, payload \<^verbatim>\<open>message[20:]\<close>)
  gives back the fields and the payload.
\<close>

theorem header_round_trip:
  assumes "in_range 16 magic" "in_range 8 version" "in_range 8 command"
    "in_range 32 sequence_number" "in_range 32 session_id" "in_range 64 logical_clock"
  shows "\<exists>header.
     struct_pack magic version command sequence_number session_id logical_clock = Inr header \<and>
     length (header @ payload) = 20 + length payload \<and>
     struct_unpack (take 20 (header @ payload)) =
       Inr (magic, version, command, sequence_number, session_id, logical_clock) \<and>
     drop 20 (header @ payload) = payload"
proof -
  let ?header = "header_bytes magic version command sequence_number session_id logical_clock"
  have "struct_pack magic version command sequence_number session_id logical_clock = Inr ?header"
    using assms by (rule struct_pack_Inr)
  moreover have "length ?header = 20"
    by (rule length_header_bytes)
  moreover have "struct_unpack ?header =
      Inr (magic, version, command, sequence_number, session_id, logical_clock)"
    using assms by (rule struct_unpack_header_bytes)
  ultimately show ?thesis
    by simp
qed

theorem header_round_trip_witness:
  "in_range 16 0xC461 \<and> in_range 8 1 \<and> in_range 8 DATA \<and> in_range 32 7 \<and>
   in_range 32 0xDEADBEEF \<and> in_range 64 5 \<and>
   (\<exists>header.
      struct_pack 0xC461 1 DATA 7 0xDEADBEEF 5 = Inr header \<and>
      length (header @ [104, 105]) = 20 + length [104, 105 :: byte] \<and>
      struct_unpack (take 20 (header @ [104, 105])) = Inr (0xC461, 1, DATA, 7, 0xDEADBEEF, 5) \<and>
      drop 20 (header @ [104, 105]) = [104, 105])"
proof -
  have r: "in_range 16 0xC461" "in_range 8 1" "in_range 8 DATA" "in_range 32 7"
    "in_range 32 0xDEADBEEF" "in_range 64 5"
    by (simp_all add: in_range_def DATA_def)
  show ?thesis
    using r header_round_trip [OF r, of "[104, 105]"] by simp
qed

text \<open>
  C2. In all four programs, \<^verbatim>\<open>update_logical_clock\<close> called with a received value \<open>v\<close>
  leaves the clock at \<open>v + 1\<close> when \<open>v\<close> is greater than the local clock and at the local
  clock plus one otherwise; in both cases that is \<open>max local v + 1\<close>.
\<close>

theorem clock_merge:
  "logical_clock_A (update_logical_clock_A (Some v) srv_A) =
     (if v > logical_clock_A srv_A then v + 1 else logical_clock_A srv_A + 1) \<and>
   logical_clock_B (update_logical_clock_B (Some v) srv_B) =
     (if v > logical_clock_B srv_B then v + 1 else logical_clock_B srv_B + 1) \<and>
   logical_clock_cA (update_logical_clock_cA (Some v) cl_A) =
     (if v > logical_clock_cA cl_A then v + 1 else logical_clock_cA cl_A + 1) \<and>
   logical_clock_cB (update_logical_clock_cB (Some v) cl_B) =
     (if v > logical_clock_cB cl_B then v + 1 else logical_clock_cB cl_B + 1) \<and>
   logical_clock_A (update_logical_clock_A (Some v) srv_A) = max (logical_clock_A srv_A) v + 1 \<and>
   logical_clock_B (update_logical_clock_B (Some v) srv_B) = max (logical_clock_B srv_B) v + 1 \<and>
   logical_clock_cA (update_logical_clock_cA (Some v) cl_A) = max (logical_clock_cA cl_A) v + 1 \<and>
   logical_clock_cB (update_logical_clock_cB (Some v) cl_B) = max (logical_clock_cB cl_B) v + 1"
  by (simp add: update_logical_clock_A_def update_logical_clock_B_def
      update_logical_clock_cA_def update_logical_clock_cB_def max_def)

theorem clock_merge_witness:
  "logical_clock_A (update_logical_clock_A (Some 9)
       ((UDPServerProtocol_init_A (ServerSession_init_A ([], 0) 0 0))\<lparr>logical_clock_A := 4\<rparr>)) = 10 \<and>
   logical_clock_cB (update_logical_clock_cB (Some 3)
       ((AsyncUDPClient_init_cB 7)\<lparr>logical_clock_cB := 4\<rparr>)) = 5"
  using clock_merge [of 9 "(UDPServerProtocol_init_A (ServerSession_init_A ([], 0) 0 0))\<lparr>logical_clock_A := 4\<rparr>"]
    clock_merge [of 3 _ _ _ "(AsyncUDPClient_init_cB 7)\<lparr>logical_clock_cB := 4\<rparr>"]
  by (simp add: UDPServerProtocol_init_A_def AsyncUDPClient_init_cB_def)

text \<open>
  C1 (as amended). A session of \<^verbatim>\<open>A/server.py\<close> in state \<^verbatim>\<open>RECEIVE\<close> that expects \<open>N\<close>
  and is handed a DATA with sequence number \<open>s\<close>, a payload that decodes as UTF-8 and a
  clock that still fits its field: for \<open>s = N\<close> it prints the payload, sends an ALIVE
  echoing \<open>s\<close> and expects \<open>N + 1\<close>; for \<open>s > N\<close> it reports every integer from \<open>N\<close>
  to \<open>s - 1\<close> as lost, prints the payload, expects \<open>s + 1\<close> and sends an ALIVE echoing
  \<open>s\<close>; for \<open>s = N - 1\<close> it sends nothing and leaves every session and both tables as
  they were; for \<open>s < N - 1\<close> it sends a GOODBYE, goes to \<^verbatim>\<open>DONE\<close> and leaves the table.
  A session of \<^verbatim>\<open>B/server.py\<close> that is handed a payload of at least one byte accepts
  \<open>s = N\<close> the same way and answers \<open>s > N\<close> with an ALIVE echoing \<open>s\<close>; it discards
  every \<open>s < N\<close>, however old, with no reply and no change to any session: it never ends
  a session over a sequence number. (A DATA of \<^verbatim>\<open>B/server.py\<close> with no payload at all
  is handed on as \<^verbatim>\<open>None\<close> and is not part of this statement: lemma
  \<open>process_message_B_no_payload\<close>.)
\<close>

theorem handle_data_classification:
  assumes "state_A (objects_A srv self) = RECEIVE"
    and "expected_sequence_number_A (objects_A srv self) = N"
    and "expected_sequence_B (objects_B srv_B self_B) = N"
    and "decodes data"
    and "in_range 32 s"
    and "in_range 32 (session_id_A (objects_A srv self))"
    and "in_range 64 (max (logical_clock_A srv) v + 2)"
    and "in_range 32 (session_id_B (objects_B srv_B self_B))"
    and "in_range 64 (logical_clock_B srv_B + 1)"
  shows
    "(let r = handle_data_A self s data v srv;
          srv' = snd r;
          session_id = session_id_A (objects_A srv self);
          client_address = client_address_A (objects_A srv self);
          clock = max (logical_clock_A srv) v + 2
      in (s = N \<longrightarrow>
            fst r = None \<and>
            console_A srv' = console_A srv @ [Received_DATA client_address data] \<and>
            transport_A srv' = transport_A srv @
              [(header_bytes 0xC461 1 ALIVE s session_id clock, client_address)] \<and>
            expected_sequence_number_A (objects_A srv' self) = N + 1 \<and>
            state_A (objects_A srv' self) = RECEIVE) \<and>
         (s > N \<longrightarrow>
            fst r = None \<and>
            console_A srv' = console_A srv @
              map (\<lambda>i. Lost_packet i client_address) [N..s - 1] @
              [Received_DATA client_address data] \<and>
            transport_A srv' = transport_A srv @
              [(header_bytes 0xC461 1 ALIVE s session_id clock, client_address)] \<and>
            expected_sequence_number_A (objects_A srv' self) = s + 1 \<and>
            state_A (objects_A srv' self) = RECEIVE) \<and>
         (s = N - 1 \<longrightarrow>
            fst r = None \<and>
            console_A srv' = console_A srv @ [Duplicate_packet s client_address] \<and>
            transport_A srv' = transport_A srv \<and>
            objects_A srv' = objects_A srv \<and>
            sessions_A srv' = sessions_A srv \<and>
            client_addresses_A srv' = client_addresses_A srv) \<and>
         (s < N - 1 \<longrightarrow>
            fst r = (case sessions_A srv session_id of None \<Rightarrow> Some KeyError | Some _ \<Rightarrow> None) \<and>
            transport_A srv' = transport_A srv @
              [(header_bytes 0xC461 1 GOODBYE 0 session_id clock, client_address)] \<and>
            state_A (objects_A srv' self) = DONE \<and>
            sessions_A srv' = (sessions_A srv)(session_id := None))) \<and>
     (let r = handle_data_B self_B s (Some data) v srv_B;
          srv' = snd r;
          session_id = session_id_B (objects_B srv_B self_B);
          client_address = client_address_B (objects_B srv_B self_B);
          clock = logical_clock_B srv_B + 1
      in (s = N \<and> data \<noteq> [] \<longrightarrow>
            fst r = None \<and>
            console_B srv' = console_B srv_B @
              [Blank_B, Clock_value_B v, Received_DATA_B session_id data] \<and>
            server_socket_B srv' = server_socket_B srv_B @
              [(header_bytes 0xC461 1 ALIVE s session_id clock, client_address)] \<and>
            expected_sequence_B (objects_B srv' self_B) = N + 1 \<and>
            active_B (objects_B srv' self_B) = active_B (objects_B srv_B self_B)) \<and>
         (s > N \<and> data \<noteq> [] \<longrightarrow>
            fst r = None \<and>
            console_B srv' = console_B srv_B @
              [Blank_B, Clock_value_B v, Lost_packets_B session_id N s,
               Received_DATA_B session_id data] \<and>
            server_socket_B srv' = server_socket_B srv_B @
              [(header_bytes 0xC461 1 ALIVE s session_id clock, client_address)] \<and>
            active_B (objects_B srv' self_B) = active_B (objects_B srv_B self_B)) \<and>
         (s < N \<longrightarrow>
            fst r = None \<and>
            console_B srv' = console_B srv_B @
              [Blank_B, Clock_value_B v, Duplicate_packet_B session_id] \<and>
            server_socket_B srv' = server_socket_B srv_B \<and>
            objects_B srv' = objects_B srv_B \<and>
            sessions_B srv' = sessions_B srv_B))"
proof -
  let ?A = "let r = handle_data_A self s data v srv;
          srv' = snd r;
          session_id = session_id_A (objects_A srv self);
          client_address = client_address_A (objects_A srv self);
          clock = max (logical_clock_A srv) v + 2
      in (s = N \<longrightarrow>
            fst r = None \<and>
            console_A srv' = console_A srv @ [Received_DATA client_address data] \<and>
            transport_A srv' = transport_A srv @
              [(header_bytes 0xC461 1 ALIVE s session_id clock, client_address)] \<and>
            expected_sequence_number_A (objects_A srv' self) = N + 1 \<and>
            state_A (objects_A srv' self) = RECEIVE) \<and>
         (s > N \<longrightarrow>
            fst r = None \<and>
            console_A srv' = console_A srv @
              map (\<lambda>i. Lost_packet i client_address) [N..s - 1] @
              [Received_DATA client_address data] \<and>
            transport_A srv' = transport_A srv @
              [(header_bytes 0xC461 1 ALIVE s session_id clock, client_address)] \<and>
            expected_sequence_number_A (objects_A srv' self) = s + 1 \<and>
            state_A (objects_A srv' self) = RECEIVE) \<and>
         (s = N - 1 \<longrightarrow>
            fst r = None \<and>
            console_A srv' = console_A srv @ [Duplicate_packet s client_address] \<and>
            transport_A srv' = transport_A srv \<and>
            objects_A srv' = objects_A srv \<and>
            sessions_A srv' = sessions_A srv \<and>
            client_addresses_A srv' = client_addresses_A srv) \<and>
         (s < N - 1 \<longrightarrow>
            fst r = (case sessions_A srv session_id of None \<Rightarrow> Some KeyError | Some _ \<Rightarrow> None) \<and>
            transport_A srv' = transport_A srv @
              [(header_bytes 0xC461 1 GOODBYE 0 session_id clock, client_address)] \<and>
            state_A (objects_A srv' self) = DONE \<and>
            sessions_A srv' = (sessions_A srv)(session_id := None))"
  let ?B = "let r = handle_data_B self_B s (Some data) v srv_B;
          srv' = snd r;
          session_id = session_id_B (objects_B srv_B self_B);
          client_address = client_address_B (objects_B srv_B self_B);
          clock = logical_clock_B srv_B + 1
      in (s = N \<and> data \<noteq> [] \<longrightarrow>
            fst r = None \<and>
            console_B srv' = console_B srv_B @
              [Blank_B, Clock_value_B v, Received_DATA_B session_id data] \<and>
            server_socket_B srv' = server_socket_B srv_B @
              [(header_bytes 0xC461 1 ALIVE s session_id clock, client_address)] \<and>
            expected_sequence_B (objects_B srv' self_B) = N + 1 \<and>
            active_B (objects_B srv' self_B) = active_B (objects_B srv_B self_B)) \<and>
         (s > N \<and> data \<noteq> [] \<longrightarrow>
            fst r = None \<and>
            console_B srv' = console_B srv_B @
              [Blank_B, Clock_value_B v, Lost_packets_B session_id N s,
               Received_DATA_B session_id data] \<and>
            server_socket_B srv' = server_socket_B srv_B @
              [(header_bytes 0xC461 1 ALIVE s session_id clock, client_address)] \<and>
            active_B (objects_B srv' self_B) = active_B (objects_B srv_B self_B)) \<and>
         (s < N \<longrightarrow>
            fst r = None \<and>
            console_B srv' = console_B srv_B @
              [Blank_B, Clock_value_B v, Duplicate_packet_B session_id] \<and>
            server_socket_B srv' = server_socket_B srv_B \<and>
            objects_B srv' = objects_B srv_B \<and>
            sessions_B srv' = sessions_B srv_B)"
  consider (expected) "s = N" | (gap) "N < s" | (duplicate) "s = N - 1" | (old) "s < N - 1"
    by linarith
  then have A: ?A
  proof cases
    case expected
    then show ?thesis
      using assms(1,2,4-7) handle_data_A_expected [of srv self s data v]
      by (simp add: Let_def assign_A_def)
  next
    case gap
    then show ?thesis
      using assms(1,2,4-7) handle_data_A_gap [of srv self s data v]
      by (simp add: Let_def assign_A_def)
  next
    case duplicate
    then show ?thesis
      using assms(1,2) handle_data_A_duplicate [of srv self s data v]
      by (simp add: Let_def)
  next
    case old
    then show ?thesis
      using assms(1,2,6,7) handle_data_A_old [of srv self s v data]
      by (simp add: Let_def assign_A_def)
  qed
  consider (expected) "s = N" | (gap) "N < s" | (old) "s < N"
    by linarith
  then have B: ?B
  proof cases
    case expected
    then show ?thesis
      using assms(3-5,8,9) handle_data_B_expected [of srv_B self_B s data v]
      by (simp add: Let_def assign_B_def)
  next
    case gap
    then show ?thesis
      using assms(3-5,8,9) handle_data_B_gap [of srv_B self_B s data v]
      by (simp add: Let_def assign_B_def)
  next
    case old
    then show ?thesis
      using assms(3) handle_data_B_old [of s srv_B self_B "Some data" v]
      by (simp add: Let_def)
  qed
  from A B show ?thesis
    by (rule conjI)
qed

theorem handle_data_classification_witness:
  "state_A (objects_A example_A 0) = RECEIVE \<and>
   expected_sequence_number_A (objects_A example_A 0) = 5 \<and>
   expected_sequence_B (objects_B example_B 0) = 5 \<and>
   decodes [104, 105] \<and>
   in_range 32 5 \<and> in_range 32 7 \<and> in_range 32 4 \<and> in_range 32 2 \<and>
   in_range 32 (session_id_A (objects_A example_A 0)) \<and>
   in_range 64 (max (logical_clock_A example_A) 3 + 2) \<and>
   in_range 32 (session_id_B (objects_B example_B 0)) \<and>
   in_range 64 (logical_clock_B example_B + 1) \<and>
   expected_sequence_number_A (objects_A (snd (handle_data_A 0 5 [104, 105] 3 example_A)) 0) = 6 \<and>
   expected_sequence_number_A (objects_A (snd (handle_data_A 0 7 [104, 105] 3 example_A)) 0) = 8 \<and>
   console_A (snd (handle_data_A 0 7 [104, 105] 3 example_A)) =
     [Lost_packet 5 (''10.0.0.1'', 4000), Lost_packet 6 (''10.0.0.1'', 4000),
      Received_DATA (''10.0.0.1'', 4000) [104, 105]] \<and>
   transport_A (snd (handle_data_A 0 4 [104, 105] 3 example_A)) = [] \<and>
   state_A (objects_A (snd (handle_data_A 0 2 [104, 105] 3 example_A)) 0) = DONE \<and>
   sessions_A (snd (handle_data_A 0 2 [104, 105] 3 example_A)) 7 = None \<and>
   expected_sequence_B (objects_B (snd (handle_data_B 0 5 (Some [104, 105]) 3 example_B)) 0) = 6 \<and>
   server_socket_B (snd (handle_data_B 0 7 (Some [104, 105]) 3 example_B)) =
     [(header_bytes 0xC461 1 ALIVE 7 7 11, (''10.0.0.1'', 4000))] \<and>
   server_socket_B (snd (handle_data_B 0 2 (Some [104, 105]) 3 example_B)) = []"
proof -
  have h: "state_A (objects_A example_A 0) = RECEIVE"
    "expected_sequence_number_A (objects_A example_A 0) = 5"
    "expected_sequence_B (objects_B example_B 0) = 5"
    "decodes [104, 105]"
    "in_range 32 (session_id_A (objects_A example_A 0))"
    "in_range 64 (max (logical_clock_A example_A) 3 + 2)"
    "in_range 32 (session_id_B (objects_B example_B 0))"
    "in_range 64 (logical_clock_B example_B + 1)"
    by (simp_all add: example_A_def example_session_A_def example_B_def example_session_B_def
        in_range_def)
  have s: "in_range 32 5" "in_range 32 7" "in_range 32 4" "in_range 32 2"
    by (simp_all add: in_range_def)
  note c = handle_data_classification [OF h(1-4) _ h(5-8)]
  show ?thesis
    using h s c [OF s(1)] c [OF s(2)] c [OF s(3)] c [OF s(4)]
    by (simp add: Let_def example_A_def example_session_A_def example_B_def
        example_session_B_def upto.simps)
qed

text \<open>
  C1 as stated fails in \<^verbatim>\<open>B/server.py\<close>: a session that expects 5 and receives a DATA
  numbered 3 sends no GOODBYE and stays active.
\<close>

theorem old_sequence_number_counterexample:
  "expected_sequence_B (objects_B example_B 0) = 5 \<and>
   handle_data_B 0 3 (Some [104, 105]) 11 example_B =
     (None, example_B\<lparr>console_B := [Blank_B, Clock_value_B 11, Duplicate_packet_B 7]\<rparr>) \<and>
   server_socket_B (snd (handle_data_B 0 3 (Some [104, 105]) 11 example_B)) = [] \<and>
   active_B (objects_B (snd (handle_data_B 0 3 (Some [104, 105]) 11 example_B)) 0)"
  by (simp add: handle_data_B_def Let_def print_B_def example_B_def example_session_B_def)

text \<open>
  C4 (as amended). A datagram whose magic number is not \<open>0xC461\<close> or whose version is
  not 1: a session of \<^verbatim>\<open>A/server.py\<close>, in any state, answers with a GOODBYE, goes to
  \<^verbatim>\<open>DONE\<close> and is deleted from the table (provided its session id and the next clock
  value fit their fields); a session of \<^verbatim>\<open>B/server.py\<close> prints that it discards the
  datagram, sends nothing and stays as it was, active and in the table.
\<close>

theorem invalid_header:
  assumes "struct_unpack (take 20 message) =
     Inr (magic, version, command, sequence_number, session_id, received_logical_clock)"
    and "magic \<noteq> 0xC461 \<or> version \<noteq> 1"
    and "in_range 32 (session_id_A (objects_A srv self))"
    and "in_range 64 (logical_clock_A srv + 1)"
  shows
    "(let r = handle_message_A self message srv;
          srv' = snd r;
          session_id = session_id_A (objects_A srv self);
          client_address = client_address_A (objects_A srv self)
      in fst r = (case sessions_A srv session_id of None \<Rightarrow> Some KeyError | Some _ \<Rightarrow> None) \<and>
         transport_A srv' = transport_A srv @
           [(header_bytes 0xC461 1 GOODBYE 0 session_id (logical_clock_A srv + 1),
             client_address)] \<and>
         state_A (objects_A srv' self) = DONE \<and>
         sessions_A srv' = (sessions_A srv)(session_id := None)) \<and>
     (let r = process_message_B self_B message srv_B;
          srv' = snd r
      in fst r = None \<and>
         server_socket_B srv' = server_socket_B srv_B \<and>
         console_B srv' = console_B srv_B @
           [Invalid_packet_B (client_address_B (objects_B srv_B self_B))] \<and>
         sessions_B srv' = sessions_B srv_B \<and>
         active_B (objects_B srv' self_B) = active_B (objects_B srv_B self_B) \<and>
         expected_sequence_B (objects_B srv' self_B) = expected_sequence_B (objects_B srv_B self_B))"
  using handle_message_A_invalid [OF assms] process_message_B_invalid [OF assms(1,2)]
  by (simp add: Let_def assign_A_def assign_B_def)

theorem invalid_header_witness:
  "struct_unpack (take 20 example_bad_magic) = Inr (0, 1, DATA, 5, 7, 3) \<and>
   (0 :: int) \<noteq> 0xC461 \<and>
   in_range 32 (session_id_A (objects_A example_A 0)) \<and>
   in_range 64 (logical_clock_A example_A + 1) \<and>
   fst (handle_message_A 0 example_bad_magic example_A) = None \<and>
   transport_A (snd (handle_message_A 0 example_bad_magic example_A)) =
     [(header_bytes 0xC461 1 GOODBYE 0 7 11, (''10.0.0.1'', 4000))] \<and>
   state_A (objects_A (snd (handle_message_A 0 example_bad_magic example_A)) 0) = DONE \<and>
   sessions_A (snd (handle_message_A 0 example_bad_magic example_A)) 7 = None \<and>
   server_socket_B (snd (process_message_B 0 example_bad_magic example_B)) = [] \<and>
   active_B (objects_B (snd (process_message_B 0 example_bad_magic example_B)) 0)"
proof -
  have h: "(0 :: int) \<noteq> 0xC461 \<or> (1 :: int) \<noteq> 1"
    "in_range 32 (session_id_A (objects_A example_A 0))"
    "in_range 64 (logical_clock_A example_A + 1)"
    by (simp_all add: example_A_def example_session_A_def in_range_def)
  show ?thesis
    using h(2,3) example_bad_magic_unpacks
      invalid_header [OF example_bad_magic_unpacks h, of 0 example_B]
    by (simp add: Let_def example_A_def example_session_A_def example_B_def
        example_session_B_def)
qed

text \<open>
  C4 as stated fails in \<^verbatim>\<open>B/server.py\<close>: a datagram with magic number 0 gets no GOODBYE,
  and the session stays active and in the table.
\<close>

theorem invalid_header_counterexample:
  "struct_unpack (take 20 example_bad_magic) = Inr (0, 1, DATA, 5, 7, 3) \<and>
   fst (process_message_B 0 example_bad_magic example_B) = None \<and>
   server_socket_B (snd (process_message_B 0 example_bad_magic example_B)) = [] \<and>
   console_B (snd (process_message_B 0 example_bad_magic example_B)) =
     [Invalid_packet_B (''10.0.0.1'', 4000)] \<and>
   active_B (objects_B (snd (process_message_B 0 example_bad_magic example_B)) 0) \<and>
   sessions_B (snd (process_message_B 0 example_bad_magic example_B)) 7 = Some 0"
  using example_bad_magic_unpacks
    process_message_B_invalid [OF example_bad_magic_unpacks, of 0 example_B]
  by (simp add: assign_B_def example_B_def example_session_B_def)

text \<open>
  C8. A session of \<^verbatim>\<open>A/server.py\<close> in state \<^verbatim>\<open>WAIT_FOR_HELLO\<close> that is handed a
  well-formed DATA or GOODBYE of its own session does nothing at all: no GOODBYE goes
  out and the state stays \<^verbatim>\<open>WAIT_FOR_HELLO\<close>. (\<^verbatim>\<open>handle_hello\<close> treats a HELLO in
  the wrong state as a protocol error; \<^verbatim>\<open>handle_data\<close> and \<^verbatim>\<open>handle_goodbye\<close> have no
  such branch.)
\<close>

theorem waiting_session_ignores:
  assumes "struct_unpack (take 20 message) =
     Inr (0xC461, 1, command, sequence_number, session_id_A (objects_A srv self),
          received_logical_clock)"
    and "state_A (objects_A srv self) = WAIT_FOR_HELLO"
    and "command = DATA \<or> command = GOODBYE"
  shows "handle_message_A self message srv = (None, srv)"
  using assms
  by (auto simp add: handle_message_A_def handle_data_A_def handle_goodbye_A_def
      HELLO_def DATA_def GOODBYE_def)

theorem waiting_session_ignores_witness:
  "struct_unpack (take 20 example_data_1) = Inr (0xC461, 1, DATA, 1, 7, 3) \<and>
   sessions_A example_waiting_A 7 = Some 0 \<and>
   session_id_A (objects_A example_waiting_A 0) = 7 \<and>
   state_A (objects_A example_waiting_A 0) = WAIT_FOR_HELLO \<and>
   handle_message_A 0 example_data_1 example_waiting_A = (None, example_waiting_A) \<and>
   datagram_received_A example_data_1 (''10.0.0.1'', 4000) example_waiting_A =
     (None, example_waiting_A) \<and>
   transport_A example_waiting_A = []"
proof -
  have s: "sessions_A example_waiting_A 7 = Some 0"
    "client_addresses_A example_waiting_A 7 = Some (''10.0.0.1'', 4000)"
    "session_id_A (objects_A example_waiting_A 0) = 7"
    "state_A (objects_A example_waiting_A 0) = WAIT_FOR_HELLO"
    "transport_A example_waiting_A = []"
    by (simp_all add: example_waiting_A_eq UDPServerProtocol_init_A_def ServerSession_init_A_def)
  have u: "struct_unpack (take 20 example_data_1) =
      Inr (0xC461, 1, DATA, 1, session_id_A (objects_A example_waiting_A 0), 3)"
    using example_data_1_unpacks s(3) by simp
  have h: "handle_message_A 0 example_data_1 example_waiting_A = (None, example_waiting_A)"
    using waiting_session_ignores [OF u s(4)] by simp
  have d: "datagram_received_A example_data_1 (''10.0.0.1'', 4000) example_waiting_A =
      handle_message_A 0 example_data_1 example_waiting_A"
    using s(1,2) struct_unpack_slices [OF example_data_1_unpacks]
    by (simp add: datagram_received_A_def)
  show ?thesis
    using example_data_1_unpacks s h d by simp
qed

text \<open>
  C5. A HELLO numbered \<open>i\<close> for a session id that is not in the table: in
  \<^verbatim>\<open>A/server.py\<close> the session made for it expects \<open>i + 1\<close>, and still does when the
  HELLO has been handled (a well-formed one leaves it in the table). In \<^verbatim>\<open>B/server.py\<close>
  the constructor is not given the sequence number of the HELLO: the session made for
  it is in the table and expects 0, not \<open>i + 1\<close>, so that the first DATA of a client
  that lost nothing is taken for a loss (lemmas \<open>lossless_data_1_B\<close>,
  \<open>lossless_data_2_B\<close>; \<^verbatim>\<open>A/server.py\<close> on the same datagrams: \<open>lossless_data_2_A\<close>).
\<close>

theorem initial_expected_sequence_number:
  assumes "struct_unpack (take 20 data) =
     Inr (magic, version, HELLO, i, session_id, received_logical_clock)"
    and "sessions_A srv session_id = None"
    and "sessions_B srv_B session_id = None"
  shows
    "expected_sequence_number_A (ServerSession_init_A addr session_id i) = i + 1 \<and>
     expected_sequence_number_A
       (objects_A (snd (datagram_received_A data addr srv)) (allocated_A srv)) = i + 1 \<and>
     (magic = 0xC461 \<and> version = 1 \<and> in_range 64 (logical_clock_A srv + 1) \<longrightarrow>
        sessions_A (snd (datagram_received_A data addr srv)) session_id =
          Some (allocated_A srv)) \<and>
     expected_sequence_B (ServerSession_init_B addr session_id) = 0 \<and>
     expected_sequence_B
       (objects_B (snd (handle_client_B data addr srv_B)) (allocated_B srv_B)) = 0 \<and>
     sessions_B (snd (handle_client_B data addr srv_B)) session_id = Some (allocated_B srv_B)"
  using datagram_received_A_expected [OF assms(1,2)]
    datagram_received_A_opens(1) [of data i session_id received_logical_clock srv addr]
    handle_client_B_new_session [OF assms(1,3)]
    handle_client_B_new_session_table [OF assms(1,3)] assms(1,2)
  by (simp add: ServerSession_init_A_def ServerSession_init_B_def)

theorem initial_expected_sequence_number_witness:
  "struct_unpack (take 20 example_hello) = Inr (0xC461, 1, HELLO, 5, 7, 0) \<and>
   sessions_A (UDPServerProtocol_init_A example_session_A) 7 = None \<and>
   sessions_B (UDPServer_init_B example_session_B) 7 = None \<and>
   in_range 64 (logical_clock_A (UDPServerProtocol_init_A example_session_A) + 1) \<and>
   expected_sequence_number_A
     (objects_A (snd (datagram_received_A example_hello (''10.0.0.1'', 4000)
                        (UDPServerProtocol_init_A example_session_A))) 0) = 6 \<and>
   sessions_A (snd (datagram_received_A example_hello (''10.0.0.1'', 4000)
                      (UDPServerProtocol_init_A example_session_A))) 7 = Some 0 \<and>
   expected_sequence_B
     (objects_B (snd (handle_client_B example_hello (''10.0.0.1'', 4000)
                        (UDPServer_init_B example_session_B))) 0) = 0"
proof -
  have h: "sessions_A (UDPServerProtocol_init_A example_session_A) 7 = None"
    "sessions_B (UDPServer_init_B example_session_B) 7 = None"
    by (simp_all add: UDPServerProtocol_init_A_def UDPServer_init_B_def)
  have c: "in_range 64 (logical_clock_A (UDPServerProtocol_init_A example_session_A) + 1)"
    "allocated_A (UDPServerProtocol_init_A example_session_A) = 0"
    "allocated_B (UDPServer_init_B example_session_B) = 0"
    by (simp_all add: UDPServerProtocol_init_A_def UDPServer_init_B_def in_range_def)
  show ?thesis
    using example_hello_unpacks h c
      initial_expected_sequence_number [OF example_hello_unpacks h, of "(''10.0.0.1'', 4000)"]
    by simp
qed

text \<open>
  C6 (as amended). A datagram whose session id is in the table under another address:
  both servers leave every session object and the table as they were and do not hand
  the datagram to the session. \<^verbatim>\<open>A/server.py\<close> prints that it ignores the client and
  sends nothing; \<^verbatim>\<open>B/server.py\<close> sends the text of a rejection to the sender.
\<close>

theorem session_id_collision:
  assumes "struct_unpack (take 20 data) =
     Inr (magic, version, command, sequence_number, session_id, received_logical_clock)"
    and "sessions_A srv session_id = Some session"
    and "client_addresses_A srv session_id = Some bound"
    and "addr \<noteq> bound"
    and "sessions_B srv_B session_id = Some session_B"
    and "client_address_B (objects_B srv_B session_B) \<noteq> addr"
  shows
    "(let r = datagram_received_A data addr srv;
          srv' = snd r
      in fst r = None \<and>
         objects_A srv' = objects_A srv \<and>
         sessions_A srv' = sessions_A srv \<and>
         client_addresses_A srv' = client_addresses_A srv \<and>
         logical_clock_A srv' = logical_clock_A srv \<and>
         transport_A srv' = transport_A srv \<and>
         console_A srv' = console_A srv @ [Ignoring_client addr session_id]) \<and>
     (let r = handle_client_B data addr srv_B;
          srv' = snd r
      in fst r = None \<and>
         objects_B srv' = objects_B srv_B \<and>
         sessions_B srv' = sessions_B srv_B \<and>
         server_socket_B srv' = server_socket_B srv_B @
           [(encode (''Session ID '' @ hex session_id @
                     '' is already in use. Connection rejected.''), addr)] \<and>
         console_B srv' = console_B srv_B @
           [In_use_B session_id (client_address_B (objects_B srv_B session_B)) addr])"
  using datagram_received_A_collision [OF assms(1-4)] handle_client_B_collision [OF assms(1,5,6)]
  by (simp add: Let_def)

theorem session_id_collision_witness:
  "struct_unpack (take 20 example_data) = Inr (0xC461, 1, DATA, 5, 7, 3) \<and>
   sessions_A example_A 7 = Some 0 \<and>
   client_addresses_A example_A 7 = Some (''10.0.0.1'', 4000) \<and>
   (''10.0.0.2'', 5000) \<noteq> (''10.0.0.1'', 4000 :: int) \<and>
   sessions_B example_B 7 = Some 0 \<and>
   client_address_B (objects_B example_B 0) \<noteq> (''10.0.0.2'', 5000) \<and>
   sessions_A (snd (datagram_received_A example_data (''10.0.0.2'', 5000) example_A)) 7 = Some 0 \<and>
   expected_sequence_number_A
     (objects_A (snd (datagram_received_A example_data (''10.0.0.2'', 5000) example_A)) 0) = 5 \<and>
   expected_sequence_B
     (objects_B (snd (handle_client_B example_data (''10.0.0.2'', 5000) example_B)) 0) = 5 \<and>
   server_socket_B (snd (handle_client_B example_data (''10.0.0.2'', 5000) example_B)) =
     [(encode ''Session ID 0x7 is already in use. Connection rejected.'', (''10.0.0.2'', 5000))]"
proof -
  have h: "sessions_A example_A 7 = Some 0"
    "client_addresses_A example_A 7 = Some (''10.0.0.1'', 4000)"
    "(''10.0.0.2'', 5000) \<noteq> (''10.0.0.1'', 4000 :: int)"
    "sessions_B example_B 7 = Some 0"
    "client_address_B (objects_B example_B 0) \<noteq> (''10.0.0.2'', 5000)"
    by (simp_all add: example_A_def example_B_def example_session_B_def)
  have x: "hex 7 = ''0x7''"
    by (simp add: hex_def hex_digit_def)
  show ?thesis
    using example_data_unpacks h x session_id_collision [OF example_data_unpacks h]
    by (simp add: Let_def example_A_def example_session_A_def example_B_def
        example_session_B_def)
qed

text \<open>
  C6 as stated fails in \<^verbatim>\<open>A/server.py\<close>: the colliding peer gets no answer.
\<close>

theorem session_id_collision_counterexample:
  "struct_unpack (take 20 example_data) = Inr (0xC461, 1, DATA, 5, 7, 3) \<and>
   sessions_A example_A 7 = Some 0 \<and>
   client_addresses_A example_A 7 = Some (''10.0.0.1'', 4000) \<and>
   datagram_received_A example_data (''10.0.0.2'', 5000) example_A =
     (None, example_A\<lparr>console_A := [Ignoring_client (''10.0.0.2'', 5000) 7]\<rparr>) \<and>
   transport_A (snd (datagram_received_A example_data (''10.0.0.2'', 5000) example_A)) = []"
proof -
  have h: "sessions_A example_A 7 = Some 0"
    "client_addresses_A example_A 7 = Some (''10.0.0.1'', 4000)"
    "(''10.0.0.2'', 5000) \<noteq> (''10.0.0.1'', 4000 :: int)"
    by (simp_all add: example_A_def)
  have c: "console_A example_A = []" "transport_A example_A = []"
    by (simp_all add: example_A_def)
  show ?thesis
    using example_data_unpacks h(1,2) c
      datagram_received_A_collision [OF example_data_unpacks h]
    by simp
qed

text \<open>
  C10. In \<^verbatim>\<open>A/server.py\<close> the keys of \<^verbatim>\<open>sessions\<close> stay within the keys of
  \<^verbatim>\<open>client_addresses\<close> under \<^verbatim>\<open>datagram_received\<close> (with the task it starts), under
  \<^verbatim>\<open>handle_message\<close>, under the idle timer and under \<^verbatim>\<open>terminate\<close>. \<^verbatim>\<open>terminate\<close>
  deletes the session's key from \<^verbatim>\<open>sessions\<close> only; the handlers and the timer never
  change \<^verbatim>\<open>client_addresses\<close>, and \<^verbatim>\<open>datagram_received\<close> changes it only by binding
  a session id that is not in \<^verbatim>\<open>sessions\<close> to the sender. A well-formed HELLO for
  such a session id puts it into both tables, over whatever address it was bound to.
\<close>

theorem sessions_within_client_addresses:
  assumes "dom (sessions_A srv) \<subseteq> dom (client_addresses_A srv)"
  shows
    "dom (sessions_A (snd (datagram_received_A data addr srv))) \<subseteq>
       dom (client_addresses_A (snd (datagram_received_A data addr srv))) \<and>
     dom (sessions_A (snd (handle_message_A self data srv))) \<subseteq>
       dom (client_addresses_A (snd (handle_message_A self data srv))) \<and>
     dom (sessions_A (snd (session_timeout_A self srv))) \<subseteq>
       dom (client_addresses_A (snd (session_timeout_A self srv))) \<and>
     dom (sessions_A (snd (terminate_A self srv))) \<subseteq>
       dom (client_addresses_A (snd (terminate_A self srv))) \<and>
     sessions_A (snd (terminate_A self srv)) =
       (sessions_A srv)(session_id_A (objects_A srv self) := None) \<and>
     client_addresses_A (snd (terminate_A self srv)) = client_addresses_A srv \<and>
     client_addresses_A (snd (handle_message_A self data srv)) = client_addresses_A srv \<and>
     client_addresses_A (snd (session_timeout_A self srv)) = client_addresses_A srv \<and>
     (client_addresses_A (snd (datagram_received_A data addr srv)) = client_addresses_A srv \<or>
      (\<exists>session_id. sessions_A srv session_id = None \<and>
         client_addresses_A (snd (datagram_received_A data addr srv)) =
           (client_addresses_A srv)(session_id \<mapsto> addr))) \<and>
     (struct_unpack (take 20 data) =
        Inr (0xC461, 1, HELLO, sequence_number, session_id, received_logical_clock) \<and>
      sessions_A srv session_id = None \<and> in_range 64 (logical_clock_A srv + 1) \<longrightarrow>
      sessions_A (snd (datagram_received_A data addr srv)) session_id =
        Some (allocated_A srv) \<and>
      client_addresses_A (snd (datagram_received_A data addr srv)) session_id = Some addr)"
proof -
  have "dom ((sessions_A srv)(session_id_A (objects_A srv self) := None)) \<subseteq>
      dom (client_addresses_A srv)"
    using assms by auto
  then show ?thesis
    using assms datagram_received_A_invariant [OF assms, of data addr]
      datagram_received_A_client_addresses [of data addr srv]
      datagram_received_A_opens(1,2)
        [of data sequence_number session_id received_logical_clock srv addr]
    by (simp add: frame_handle_message_A session_timeout_A_frame frame_terminate_A)
qed


theorem sessions_within_client_addresses_witness:
  "dom (sessions_A example_A) \<subseteq> dom (client_addresses_A example_A) \<and>
   sessions_A example_A 7 = Some 0 \<and>
   sessions_A (snd (terminate_A 0 example_A)) 7 = None \<and>
   client_addresses_A (snd (terminate_A 0 example_A)) 7 = Some (''10.0.0.1'', 4000) \<and>
   dom (sessions_A (snd (terminate_A 0 example_A))) \<subseteq>
     dom (client_addresses_A (snd (terminate_A 0 example_A))) \<and>
   struct_unpack (take 20 example_hello) = Inr (0xC461, 1, HELLO, 5, 7, 0) \<and>
   in_range 64 (logical_clock_A (snd (terminate_A 0 example_A)) + 1) \<and>
   sessions_A (snd (datagram_received_A example_hello (''10.0.0.2'', 5000)
                      (snd (terminate_A 0 example_A)))) 7 = Some 1 \<and>
   client_addresses_A (snd (datagram_received_A example_hello (''10.0.0.2'', 5000)
                              (snd (terminate_A 0 example_A)))) 7 = Some (''10.0.0.2'', 5000)"
proof -
  have a: "dom (sessions_A example_A) \<subseteq> dom (client_addresses_A example_A)"
    "sessions_A example_A 7 = Some 0"
    "session_id_A (objects_A example_A 0) = 7"
    "client_addresses_A example_A 7 = Some (''10.0.0.1'', 4000)"
    by (simp_all add: example_A_def example_session_A_def)
  note first = sessions_within_client_addresses
    [OF a(1), of example_hello "(''10.0.0.2'', 5000)" 0 5 7 0]
  have t: "sessions_A (snd (terminate_A 0 example_A)) 7 = None"
    "client_addresses_A (snd (terminate_A 0 example_A)) 7 = Some (''10.0.0.1'', 4000)"
    using first a by simp_all
  have i: "dom (sessions_A (snd (terminate_A 0 example_A))) \<subseteq>
       dom (client_addresses_A (snd (terminate_A 0 example_A)))"
    using first by (elim conjE)
  have c: "in_range 64 (logical_clock_A (snd (terminate_A 0 example_A)) + 1)"
    "allocated_A (snd (terminate_A 0 example_A)) = 1"
    by (simp_all add: terminate_A_removes assign_A_def example_A_def in_range_def)
  note second = sessions_within_client_addresses
    [OF i, of example_hello "(''10.0.0.2'', 5000)" _ 5 7 0]
  show ?thesis
    using a t i c example_hello_unpacks second by simp
qed

text \<open>
  C3. \<^verbatim>\<open>handle_message\<close> of \<^verbatim>\<open>A/server.py\<close> unpacks the clock \<open>v\<close> of every datagram, but
  hands it to \<^verbatim>\<open>handle_data\<close> only: \<^verbatim>\<open>handle_hello\<close> and \<^verbatim>\<open>handle_goodbye\<close> never see it.
  A HELLO that opens a session and a GOODBYE that ends one therefore leave the clock at
  \<open>local + 1\<close>, the tick of the reply, whatever \<open>v\<close> is, and the reply is stamped
  \<open>local + 1\<close>: when \<open>v\<close> is ahead of the server, the reply carries a clock that is not
  later than the clock of the datagram it answers. A DATA in state \<^verbatim>\<open>RECEIVE\<close> does
  merge: it leaves the clock at \<open>max local v + 1\<close> or more. (The sends of all four
  programs, the receipts of both clients and \<^verbatim>\<open>handle_client\<close> of \<^verbatim>\<open>B/server.py\<close> do
  what the claim says: lemma \<open>ticks_and_merges\<close>.)
\<close>

theorem received_clock_dropped:
  assumes "struct_unpack (take 20 message) =
     Inr (0xC461, 1, command, sequence_number, session_id_A (objects_A srv self), v)"
    and "in_range 64 (logical_clock_A srv + 1)"
  shows
    "(command = HELLO \<and> state_A (objects_A srv self) = WAIT_FOR_HELLO \<longrightarrow>
        fst (handle_message_A self message srv) = None \<and>
        logical_clock_A (snd (handle_message_A self message srv)) = logical_clock_A srv + 1 \<and>
        transport_A (snd (handle_message_A self message srv)) = transport_A srv @
          [(header_bytes 0xC461 1 HELLO sequence_number (session_id_A (objects_A srv self))
              (logical_clock_A srv + 1),
            client_address_A (objects_A srv self))]) \<and>
     (command = GOODBYE \<and> state_A (objects_A srv self) = RECEIVE \<longrightarrow>
        logical_clock_A (snd (handle_message_A self message srv)) = logical_clock_A srv + 1 \<and>
        transport_A (snd (handle_message_A self message srv)) = transport_A srv @
          [(header_bytes 0xC461 1 GOODBYE 0 (session_id_A (objects_A srv self))
              (logical_clock_A srv + 1),
            client_address_A (objects_A srv self))]) \<and>
     (command = DATA \<and> state_A (objects_A srv self) = RECEIVE \<longrightarrow>
        max (logical_clock_A srv) v + 1 \<le>
          logical_clock_A (snd (handle_message_A self message srv)))"
proof -
  note r = struct_unpack_in_range [OF assms(1)]
  have hello: "command = HELLO \<and> state_A (objects_A srv self) = WAIT_FOR_HELLO \<longrightarrow>
        fst (handle_message_A self message srv) = None \<and>
        logical_clock_A (snd (handle_message_A self message srv)) = logical_clock_A srv + 1 \<and>
        transport_A (snd (handle_message_A self message srv)) = transport_A srv @
          [(header_bytes 0xC461 1 HELLO sequence_number (session_id_A (objects_A srv self))
              (logical_clock_A srv + 1),
            client_address_A (objects_A srv self))]"
    using assms r(4,5)
    by (simp add: handle_message_A_hello handle_hello_A_opens assign_A_def)
  have goodbye: "command = GOODBYE \<and> state_A (objects_A srv self) = RECEIVE \<longrightarrow>
        logical_clock_A (snd (handle_message_A self message srv)) = logical_clock_A srv + 1 \<and>
        transport_A (snd (handle_message_A self message srv)) = transport_A srv @
          [(header_bytes 0xC461 1 GOODBYE 0 (session_id_A (objects_A srv self))
              (logical_clock_A srv + 1),
            client_address_A (objects_A srv self))]"
    using assms r(5)
    by (simp add: handle_message_A_def handle_goodbye_A_def goodbye_done_terminate_A_ends
        print_A_def assign_A_def HELLO_def DATA_def GOODBYE_def)
  have data: "command = DATA \<and> state_A (objects_A srv self) = RECEIVE \<longrightarrow>
        max (logical_clock_A srv) v + 1 \<le>
          logical_clock_A (snd (handle_message_A self message srv))"
    using assms(1) handle_data_A_merges [of srv self v sequence_number "drop 20 message"]
    by (simp add: handle_message_A_def HELLO_def DATA_def)
  from hello goodbye data show ?thesis
    by simp
qed


theorem received_clock_dropped_witness:
  "struct_unpack (take 20 example_hello_100) = Inr (0xC461, 1, HELLO, 0, 7, 100) \<and>
   struct_unpack (take 20 example_goodbye_100) = Inr (0xC461, 1, GOODBYE, 6, 7, 100) \<and>
   struct_unpack (take 20 example_data_100) = Inr (0xC461, 1, DATA, 5, 7, 100) \<and>
   datagram_received_A example_hello_100 (''10.0.0.1'', 4000)
       (UDPServerProtocol_init_A example_session_A) =
     handle_message_A 0 example_hello_100 example_waiting_A \<and>
   session_id_A (objects_A example_waiting_A 0) = 7 \<and>
   state_A (objects_A example_waiting_A 0) = WAIT_FOR_HELLO \<and>
   in_range 64 (logical_clock_A example_waiting_A + 1) \<and>
   session_id_A (objects_A example_A 0) = 7 \<and>
   state_A (objects_A example_A 0) = RECEIVE \<and>
   in_range 64 (logical_clock_A example_A + 1) \<and>
   logical_clock_A (snd (handle_message_A 0 example_hello_100 example_waiting_A)) = 1 \<and>
   transport_A (snd (handle_message_A 0 example_hello_100 example_waiting_A)) =
     [(header_bytes 0xC461 1 HELLO 0 7 1, (''10.0.0.1'', 4000))] \<and>
   logical_clock_A (snd (handle_message_A 0 example_goodbye_100 example_A)) = 11 \<and>
   transport_A (snd (handle_message_A 0 example_goodbye_100 example_A)) =
     [(header_bytes 0xC461 1 GOODBYE 0 7 11, (''10.0.0.1'', 4000))] \<and>
   101 \<le> logical_clock_A (snd (handle_message_A 0 example_data_100 example_A))"
proof -
  have n: "sessions_A (UDPServerProtocol_init_A example_session_A) 7 = None"
    by (simp add: UDPServerProtocol_init_A_def)
  have d: "datagram_received_A example_hello_100 (''10.0.0.1'', 4000)
       (UDPServerProtocol_init_A example_session_A) =
     handle_message_A 0 example_hello_100 example_waiting_A"
    unfolding datagram_received_A_new_session [OF example_hello_100_unpacks n]
      example_waiting_A_eq
    by (simp add: UDPServerProtocol_init_A_def)
  have w: "session_id_A (objects_A example_waiting_A 0) = 7"
    "state_A (objects_A example_waiting_A 0) = WAIT_FOR_HELLO"
    "in_range 64 (logical_clock_A example_waiting_A + 1)"
    "logical_clock_A example_waiting_A = 0"
    "transport_A example_waiting_A = []"
    "client_address_A (objects_A example_waiting_A 0) = (''10.0.0.1'', 4000)"
    by (simp_all add: example_waiting_A_eq ServerSession_init_A_def UDPServerProtocol_init_A_def
        in_range_def)
  have a: "session_id_A (objects_A example_A 0) = 7"
    "state_A (objects_A example_A 0) = RECEIVE"
    "in_range 64 (logical_clock_A example_A + 1)"
    "logical_clock_A example_A = 10"
    "transport_A example_A = []"
    "client_address_A (objects_A example_A 0) = (''10.0.0.1'', 4000)"
    by (simp_all add: example_A_def example_session_A_def in_range_def)
  have u: "struct_unpack (take 20 example_hello_100) =
      Inr (0xC461, 1, HELLO, 0, session_id_A (objects_A example_waiting_A 0), 100)"
    "struct_unpack (take 20 example_goodbye_100) =
      Inr (0xC461, 1, GOODBYE, 6, session_id_A (objects_A example_A 0), 100)"
    "struct_unpack (take 20 example_data_100) =
      Inr (0xC461, 1, DATA, 5, session_id_A (objects_A example_A 0), 100)"
    using example_hello_100_unpacks example_goodbye_100_unpacks example_data_100_unpacks
    by (simp_all add: w(1) a(1))
  show ?thesis
    using example_hello_100_unpacks example_goodbye_100_unpacks example_data_100_unpacks d
      received_clock_dropped [OF u(1) w(3)] received_clock_dropped [OF u(2) a(3)]
      received_clock_dropped [OF u(3) a(3)]
    by (simp add: w a in_range_def)
qed

text \<open>
  C7. When the idle timer of a session of \<^verbatim>\<open>B/server.py\<close> fires, \<^verbatim>\<open>issue_timeout\<close>
  sends a GOODBYE and clears \<^verbatim>\<open>active\<close>, but the session stays in the table
  \<^verbatim>\<open>sessions\<close>: only \<^verbatim>\<open>handle_client\<close> deletes entries, and only after it has handled
  a further datagram of the same client, which it still answers (lemma
  \<open>timed_out_session_still_answers\<close>). \<^verbatim>\<open>session_timeout\<close> of \<^verbatim>\<open>A/server.py\<close> does
  delete the entry (lemma \<open>session_timeout_A_ends\<close>).
\<close>

theorem idle_timeout_keeps_entry:
  assumes "in_range 32 (expected_sequence_B (objects_B srv self))"
    and "in_range 32 (session_id_B (objects_B srv self))"
    and "in_range 64 (logical_clock_B srv + 1)"
  shows "let r = issue_timeout_B self srv; srv' = snd r
     in fst r = None \<and>
        server_socket_B srv' = server_socket_B srv @
          [(header_bytes 0xC461 1 GOODBYE (expected_sequence_B (objects_B srv self))
              (session_id_B (objects_B srv self)) (logical_clock_B srv + 1),
            client_address_B (objects_B srv self))] \<and>
        \<not> active_B (objects_B srv' self) \<and>
        sessions_B srv' = sessions_B srv"
  using issue_timeout_B_sends [OF assms] by (simp add: Let_def assign_B_def)

theorem idle_timeout_keeps_entry_witness:
  "in_range 32 (expected_sequence_B (objects_B example_B 0)) \<and>
   in_range 32 (session_id_B (objects_B example_B 0)) \<and>
   in_range 64 (logical_clock_B example_B + 1) \<and>
   sessions_B example_B 7 = Some 0 \<and>
   fst (issue_timeout_B 0 example_B) = None \<and>
   server_socket_B (snd (issue_timeout_B 0 example_B)) =
     [(header_bytes 0xC461 1 GOODBYE 5 7 11, (''10.0.0.1'', 4000))] \<and>
   \<not> active_B (objects_B (snd (issue_timeout_B 0 example_B)) 0) \<and>
   sessions_B (snd (issue_timeout_B 0 example_B)) 7 = Some 0"
proof -
  have h: "in_range 32 (expected_sequence_B (objects_B example_B 0))"
    "in_range 32 (session_id_B (objects_B example_B 0))"
    "in_range 64 (logical_clock_B example_B + 1)"
    by (simp_all add: example_B_def example_session_B_def in_range_def)
  show ?thesis
    using h idle_timeout_keeps_entry [OF h]
    by (simp add: Let_def example_B_def example_session_B_def)
qed

end
